theory Spec2Isabelle
  imports Main "HOL-Library.Word" "HOL-Library.Product_Lexorder"
begin

section \<open>Values of the JavaScript runtime\<close>

text \<open>
  A \<open>Date\<close> object is read by the services through four accessors only: \<open>getTime()\<close>
  (milliseconds since the epoch), \<open>getFullYear()\<close>, \<open>getMonth()\<close> (zero-based) and
  \<open>getDate()\<close> (day of the month). The record holds what these four return. How the
  runtime derives the calendar fields from the instant and the time zone is not part of
  the repository.
\<close>

record jsdate =
  getTime :: int
  getFullYear :: int
  getMonth :: int
  getDate :: int

text \<open>
  What the services take from their environment: SHA-256 with hex output, the
  \<open>USER_HASH_SALT\<close> variable, and \<open>Date.prototype.setFullYear\<close> (applied to a copy).
\<close>

record runtime =
  sha256_hex :: "string \<Rightarrow> string"
  USER_HASH_SALT :: "string option"
  setFullYear :: "jsdate \<Rightarrow> int \<Rightarrow> jsdate"

text \<open>
  Strings are lists of 8-bit characters. \<open>String.prototype.trim\<close> removes white space
  and line terminators at both ends; in this character range these are TAB, LF, VT, FF,
  CR, SPACE and NBSP.
\<close>

definition isWhiteSpace :: "char \<Rightarrow> bool" where
  "isWhiteSpace c = ((of_char c :: nat) \<in> {9, 10, 11, 12, 13, 32, 160})"

definition trim :: "string \<Rightarrow> string" where
  "trim s = rev (dropWhile isWhiteSpace (rev (dropWhile isWhiteSpace s)))"

section \<open>age-proof.service.ts: data\<close>

record BirthDate =
  day :: int
  month :: int
  year :: int

record AgeComputationResult =
  ac_age :: int
  ac_isMajor :: bool

record Age18PlusClaimParams =
  cp_user_hash :: string
  cp_claim_type :: string
  cp_value :: bool
  cp_valid_from :: int
  cp_valid_until :: int
  cp_revoked :: bool

record CreateClaimResult =
  isMajor :: bool
  claimCreated :: bool
  deployHash :: "string option"
  claimParams :: Age18PlusClaimParams

text \<open>
  A row of table \<open>age_proofs\<close> (entity \<open>AgeProofEntity\<close>). The two timestamps
  \<open>valid_from\<close> and \<open>valid_until\<close> are kept as milliseconds since the epoch, as
  \<open>getTime()\<close> reads them back. Column \<open>updated_at\<close> is maintained by the ORM and read
  only by the administrative listing; it is left out.
\<close>

record AgeProofEntity =
  row_id :: nat
  session_id :: "string option"
  wallet_pubkey :: string
  user_hash :: string
  claim_type :: string
  age :: int
  is_major :: bool
  valid_from :: int
  valid_until :: int
  revoked :: bool
  deploy_hash :: "string option"
  created_at :: int

text \<open>
  The table, in insertion order, with the sequence behind the generated primary key.
\<close>

record age_proofs_table =
  rows :: "AgeProofEntity list"
  id_seq :: nat

definition empty_table :: age_proofs_table where
  "empty_table = \<lparr>rows = [], id_seq = 1\<rparr>"

definition CLAIM_TYPE :: string where
  "CLAIM_TYPE = ''AGE_18_PLUS''"

section \<open>age-proof.service.ts: age and claim parameters\<close>

definition getUserHashSalt :: "runtime \<Rightarrow> string" where
  "getUserHashSalt rt =
     (case USER_HASH_SALT rt of
        None \<Rightarrow> ''legalproof_v1_default_salt''
      | Some s \<Rightarrow> if s = [] then ''legalproof_v1_default_salt'' else s)"

definition computeUserHash :: "runtime \<Rightarrow> string \<Rightarrow> string" where
  "computeUserHash rt walletPubkey =
     sha256_hex rt (trim walletPubkey @ '':'' @ getUserHashSalt rt)"

definition computeAge :: "BirthDate \<Rightarrow> jsdate \<Rightarrow> AgeComputationResult" where
  "computeAge birthDate referenceDate =
     (let age0 = getFullYear referenceDate - year birthDate;
          hasNotHadBirthdayThisYear =
            (getMonth referenceDate < month birthDate - 1 \<or>
             (getMonth referenceDate = month birthDate - 1 \<and>
              getDate referenceDate < day birthDate));
          age1 = (if hasNotHadBirthdayThisYear then age0 - 1 else age0)
      in \<lparr>ac_age = age1, ac_isMajor = (18 \<le> age1)\<rparr>)"

definition buildAge18PlusClaimParams ::
  "runtime \<Rightarrow> string \<Rightarrow> BirthDate \<Rightarrow> int \<Rightarrow> jsdate \<Rightarrow> Age18PlusClaimParams" where
  "buildAge18PlusClaimParams rt walletPubkey birthDate validityYears referenceDate =
     (let validFromSec = getTime referenceDate div 1000;
          validUntilDate =
            setFullYear rt referenceDate (getFullYear referenceDate + validityYears);
          validUntilSec = getTime validUntilDate div 1000
      in \<lparr>cp_user_hash = computeUserHash rt walletPubkey,
          cp_claim_type = CLAIM_TYPE,
          cp_value = ac_isMajor (computeAge birthDate referenceDate),
          cp_valid_from = validFromSec,
          cp_valid_until = validUntilSec,
          cp_revoked = False\<rparr>)"

section \<open>age-proof.service.ts: the repository\<close>

text \<open>
  \<open>findOne({ where, order: { created_at: 'DESC' } })\<close>: a row that satisfies the
  condition and has the greatest \<open>created_at\<close>. The database leaves the choice among
  rows of equal \<open>created_at\<close> open; here the row inserted last is taken.
\<close>

fun findOne_created_at_DESC ::
  "(AgeProofEntity \<Rightarrow> bool) \<Rightarrow> AgeProofEntity list \<Rightarrow> AgeProofEntity option" where
  "findOne_created_at_DESC P [] = None"
| "findOne_created_at_DESC P (r # rs) =
     (case findOne_created_at_DESC P rs of
        None \<Rightarrow> if P r then Some r else None
      | Some b \<Rightarrow> if P r \<and> created_at b < created_at r then Some r else Some b)"

text \<open>
  \<open>save\<close> of an object literal without primary key inserts a row; the database
  generates \<open>id\<close> and \<open>created_at\<close>, whatever the two fields of the argument hold.
\<close>

definition save_new :: "age_proofs_table \<Rightarrow> AgeProofEntity \<Rightarrow> int \<Rightarrow> age_proofs_table" where
  "save_new t r insertedAt =
     \<lparr>rows = rows t @ [r\<lparr>row_id := id_seq t, created_at := insertedAt\<rparr>],
      id_seq = Suc (id_seq t)\<rparr>"

text \<open>\<open>save\<close> of an entity that was loaded from the table updates the row of that key.\<close>

definition save_loaded :: "age_proofs_table \<Rightarrow> AgeProofEntity \<Rightarrow> age_proofs_table" where
  "save_loaded t r = t\<lparr>rows := map (\<lambda>x. if row_id x = row_id r then r else x) (rows t)\<rparr>"

text \<open>
  The update of the rotation:
  \<open>UPDATE age_proofs SET revoked = true WHERE wallet_pubkey = :wallet AND claim_type = :ct
  AND revoked = false\<close>. The \<open>SELECT ... FOR UPDATE\<close> before it takes locks and changes
  no row.
\<close>

definition update_set_revoked :: "age_proofs_table \<Rightarrow> string \<Rightarrow> age_proofs_table" where
  "update_set_revoked t wallet =
     t\<lparr>rows := map (\<lambda>x. if wallet_pubkey x = wallet \<and> claim_type x = CLAIM_TYPE \<and> revoked x = False
                          then x\<lparr>revoked := True\<rparr> else x) (rows t)\<rparr>"

section \<open>age-proof.service.ts: create, status, revoke (off-chain service with rotation)\<close>

text \<open>
  \<open>createAge18PlusClaimIfMajor\<close> reads the clock twice (\<open>paramsNow\<close> inside
  \<open>buildAge18PlusClaimParams\<close>, \<open>ageNow\<close> inside \<open>computeAge\<close>); \<open>insertedAt\<close> is the
  \<open>created_at\<close> the database gives the new row.
\<close>

definition createAge18PlusClaimIfMajor ::
  "runtime \<Rightarrow> age_proofs_table \<Rightarrow> string \<Rightarrow> BirthDate \<Rightarrow> int \<Rightarrow> string option \<Rightarrow>
   jsdate \<Rightarrow> jsdate \<Rightarrow> int \<Rightarrow> CreateClaimResult \<times> age_proofs_table" where
  "createAge18PlusClaimIfMajor rt t walletPubkey birthDate validityYears sessionId
       paramsNow ageNow insertedAt =
     (let claimParamsBase =
            buildAge18PlusClaimParams rt walletPubkey birthDate validityYears paramsNow;
          validFromDate = cp_valid_from claimParamsBase * 1000;
          validUntilDate = cp_valid_until claimParamsBase * 1000;
          ageResult = computeAge birthDate ageNow
      in if \<not> ac_isMajor ageResult then
           (\<lparr>isMajor = False, claimCreated = False, deployHash = None,
             claimParams = claimParamsBase\<lparr>cp_revoked := True\<rparr>\<rparr>,
            save_new t
              \<lparr>row_id = 0, session_id = sessionId, wallet_pubkey = walletPubkey,
               user_hash = cp_user_hash claimParamsBase,
               claim_type = cp_claim_type claimParamsBase,
               age = ac_age ageResult, is_major = False,
               valid_from = validFromDate, valid_until = validUntilDate,
               revoked = True, deploy_hash = None, created_at = 0\<rparr> insertedAt)
         else
           (\<lparr>isMajor = True, claimCreated = True, deployHash = None,
             claimParams = claimParamsBase\<rparr>,
            save_new (update_set_revoked t walletPubkey)
              \<lparr>row_id = 0, session_id = sessionId, wallet_pubkey = walletPubkey,
               user_hash = cp_user_hash claimParamsBase,
               claim_type = cp_claim_type claimParamsBase,
               age = ac_age ageResult, is_major = True,
               valid_from = validFromDate, valid_until = validUntilDate,
               revoked = False, deploy_hash = None, created_at = 0\<rparr> insertedAt))"

record Age18PlusStatus =
  st_wallet_pubkey :: string
  st_has_proof :: bool
  st_is_major :: bool
  st_revoked :: bool
  st_valid_from :: "int option"
  st_valid_until :: "int option"
  st_deploy_hash :: "string option"

text \<open>
  \<open>getAge18PlusStatus\<close>; \<open>now\<close> is \<open>new Date().getTime()\<close>. The columns \<open>valid_from\<close>
  and \<open>valid_until\<close> are not nullable, so the two conditional expressions on them take
  their first branch.
\<close>

definition getAge18PlusStatus :: "age_proofs_table \<Rightarrow> string \<Rightarrow> int \<Rightarrow> Age18PlusStatus" where
  "getAge18PlusStatus t walletPubkey now =
     (let activeValid =
            findOne_created_at_DESC
              (\<lambda>r. wallet_pubkey r = walletPubkey \<and> claim_type r = CLAIM_TYPE \<and>
                    revoked r = False \<and> is_major r = True) (rows t);
          history =
            (case findOne_created_at_DESC
                    (\<lambda>r. wallet_pubkey r = walletPubkey \<and> claim_type r = CLAIM_TYPE) (rows t) of
               None \<Rightarrow>
                 \<lparr>st_wallet_pubkey = walletPubkey, st_has_proof = False, st_is_major = False,
                  st_revoked = False, st_valid_from = None, st_valid_until = None,
                  st_deploy_hash = None\<rparr>
             | Some latest \<Rightarrow>
                 \<lparr>st_wallet_pubkey = walletPubkey, st_has_proof = True, st_is_major = False,
                  st_revoked = revoked latest,
                  st_valid_from = Some (valid_from latest div 1000),
                  st_valid_until = Some (valid_until latest div 1000),
                  st_deploy_hash = deploy_hash latest\<rparr>)
      in case activeValid of
           None \<Rightarrow> history
         | Some a \<Rightarrow>
             if valid_from a \<le> now \<and> valid_until a \<ge> now then
               \<lparr>st_wallet_pubkey = walletPubkey, st_has_proof = True, st_is_major = True,
                st_revoked = False,
                st_valid_from = Some (valid_from a div 1000),
                st_valid_until = Some (valid_until a div 1000),
                st_deploy_hash = deploy_hash a\<rparr>
             else history)"

record RevokeResult =
  rv_wallet_pubkey :: string
  rv_claim_type :: string
  rv_had_proof :: bool
  rv_revoked :: bool
  rv_deploy_hash :: "string option"
  rv_valid_from :: "int option"
  rv_valid_until :: "int option"

definition revokeAge18PlusClaim ::
  "age_proofs_table \<Rightarrow> string \<Rightarrow> RevokeResult \<times> age_proofs_table" where
  "revokeAge18PlusClaim t walletPubkey =
     (case findOne_created_at_DESC
             (\<lambda>r. wallet_pubkey r = walletPubkey \<and> claim_type r = CLAIM_TYPE \<and>
                   revoked r = False) (rows t) of
        None \<Rightarrow>
          (case findOne_created_at_DESC
                  (\<lambda>r. wallet_pubkey r = walletPubkey \<and> claim_type r = CLAIM_TYPE) (rows t) of
             None \<Rightarrow>
               (\<lparr>rv_wallet_pubkey = walletPubkey, rv_claim_type = CLAIM_TYPE,
                 rv_had_proof = False, rv_revoked = False, rv_deploy_hash = None,
                 rv_valid_from = None, rv_valid_until = None\<rparr>, t)
           | Some latest \<Rightarrow>
               (\<lparr>rv_wallet_pubkey = walletPubkey, rv_claim_type = CLAIM_TYPE,
                 rv_had_proof = True, rv_revoked = True, rv_deploy_hash = deploy_hash latest,
                 rv_valid_from = Some (valid_from latest div 1000),
                 rv_valid_until = Some (valid_until latest div 1000)\<rparr>, t))
      | Some active \<Rightarrow>
          (\<lparr>rv_wallet_pubkey = walletPubkey, rv_claim_type = CLAIM_TYPE,
            rv_had_proof = True, rv_revoked = True, rv_deploy_hash = deploy_hash active,
            rv_valid_from = Some (valid_from active div 1000),
            rv_valid_until = Some (valid_until active div 1000)\<rparr>,
           save_loaded t (active\<lparr>revoked := True\<rparr>)))"

section \<open>The ledger-anchoring revision of the service\<close>

text \<open>
  The repository holds a second revision of \<open>age-proof.service.ts\<close>, which anchors
  a claim on the Casper ledger by running \<open>casper-client\<close>. What \<open>sendClaimToCasper\<close>
  reads from the process is one of six outcomes: the process could not be run or ended
  with an error; its output holds no \<open>{\<close>; the text from the first \<open>{\<close> is not JSON;
  the JSON has an \<open>error\<close> field; it has no \<open>result.deploy_hash\<close>; or it has one.
\<close>

datatype casper_client_result =
    ExecFailed
  | CASPER_NO_JSON
  | CASPER_INVALID_JSON
  | CASPER_JSON_ERROR_FIELD
  | CASPER_MISSING_DEPLOY_HASH
  | Deploy_hash string




section \<open>Rows of one wallet, the most recent row, the number of active rows\<close>

definition of_wallet :: "string \<Rightarrow> AgeProofEntity \<Rightarrow> bool" where
  "of_wallet w r = (wallet_pubkey r = w \<and> claim_type r = CLAIM_TYPE)"

text \<open>
  \<open>most_recent P rs r\<close>: \<open>r\<close> is a row of \<open>rs\<close> that satisfies \<open>P\<close>, and every other
  such row was created strictly earlier.
\<close>

definition most_recent ::
  "(AgeProofEntity \<Rightarrow> bool) \<Rightarrow> AgeProofEntity list \<Rightarrow> AgeProofEntity \<Rightarrow> bool" where
  "most_recent P rs r =
     (r \<in> set rs \<and> P r \<and> (\<forall>x \<in> set rs. P x \<longrightarrow> x = r \<or> created_at x < created_at r))"

definition active_count :: "age_proofs_table \<Rightarrow> string \<Rightarrow> string \<Rightarrow> nat" where
  "active_count t w ct =
     length (filter (\<lambda>r. wallet_pubkey r = w \<and> claim_type r = ct \<and> \<not> revoked r) (rows t))"

text \<open>
  The tables that the off-chain service can produce from the empty table when its
  operations run one at a time. A creation and a revocation are steps; so is the update
  inside the rotation, which gives the table as it stands between the two statements of
  the transaction. A status query changes nothing.
\<close>

inductive reachable_serial :: "runtime \<Rightarrow> age_proofs_table \<Rightarrow> bool" for rt :: runtime where
  serial_empty: "reachable_serial rt empty_table"
| serial_create:
    "reachable_serial rt t \<Longrightarrow>
       reachable_serial rt
         (snd (createAge18PlusClaimIfMajor rt t w b vy sid paramsNow ageNow insertedAt))"
| serial_in_rotation:
    "reachable_serial rt t \<Longrightarrow> reachable_serial rt (update_set_revoked t w)"
| serial_revoke:
    "reachable_serial rt t \<Longrightarrow> reachable_serial rt (snd (revokeAge18PlusClaim t w))"

text \<open>
  The object that the rotation saves as the new active row; the database adds the key
  and \<open>created_at\<close>.
\<close>

definition rotation_row ::
  "runtime \<Rightarrow> string \<Rightarrow> BirthDate \<Rightarrow> int \<Rightarrow> string option \<Rightarrow> jsdate \<Rightarrow> jsdate \<Rightarrow>
   AgeProofEntity" where
  "rotation_row rt walletPubkey birthDate validityYears sessionId paramsNow ageNow =
     (let claimParamsBase =
            buildAge18PlusClaimParams rt walletPubkey birthDate validityYears paramsNow
      in \<lparr>row_id = 0, session_id = sessionId, wallet_pubkey = walletPubkey,
          user_hash = cp_user_hash claimParamsBase,
          claim_type = cp_claim_type claimParamsBase,
          age = ac_age (computeAge birthDate ageNow), is_major = True,
          valid_from = cp_valid_from claimParamsBase * 1000,
          valid_until = cp_valid_until claimParamsBase * 1000,
          revoked = False, deploy_hash = None, created_at = 0\<rparr>)"

text \<open>
  Requests that overlap. A rotation is two statements, the update and the insertion, and
  the statements of several rotations may alternate. What the service itself does to keep
  them apart is \<open>SELECT ... FOR UPDATE\<close> on the active rows of the wallet: a rotation that
  found such rows holds their locks until it has inserted, and another rotation or a
  revocation for that wallet waits. A rotation that found no active row holds no lock.
  The state is the table together with the rotations that have updated and not yet
  inserted. The partial unique index that the comments of the service name belongs to the
  database schema, which is not part of the source; it is not modelled.
\<close>

record rotation =
  ro_row :: AgeProofEntity
  ro_locked :: bool

inductive reachable_interleaved ::
  "runtime \<Rightarrow> age_proofs_table \<Rightarrow> rotation list \<Rightarrow> bool" for rt :: runtime where
  interleaved_empty: "reachable_interleaved rt empty_table []"
| interleaved_create_minor:
    "reachable_interleaved rt t ps \<Longrightarrow> \<not> ac_isMajor (computeAge b ageNow) \<Longrightarrow>
       reachable_interleaved rt
         (snd (createAge18PlusClaimIfMajor rt t w b vy sid paramsNow ageNow insertedAt)) ps"
| interleaved_rotation_update:
    "reachable_interleaved rt t ps \<Longrightarrow> ac_isMajor (computeAge b ageNow) \<Longrightarrow>
     \<forall>p \<in> set ps. wallet_pubkey (ro_row p) = w \<longrightarrow> \<not> ro_locked p \<Longrightarrow>
       reachable_interleaved rt (update_set_revoked t w)
         (\<lparr>ro_row = rotation_row rt w b vy sid paramsNow ageNow,
           ro_locked = (\<exists>r \<in> set (rows t). of_wallet w r \<and> \<not> revoked r)\<rparr> # ps)"
| interleaved_rotation_insert:
    "reachable_interleaved rt t ps \<Longrightarrow> p \<in> set ps \<Longrightarrow>
       reachable_interleaved rt (save_new t (ro_row p) insertedAt) (remove1 p ps)"
| interleaved_revoke:
    "reachable_interleaved rt t ps \<Longrightarrow>
     \<forall>p \<in> set ps. wallet_pubkey (ro_row p) = w \<longrightarrow> \<not> ro_locked p \<Longrightarrow>
       reachable_interleaved rt (snd (revokeAge18PlusClaim t w)) ps"

section \<open>auth.service.ts: strings and bytes\<close>

type_synonym byte = "8 word"

text \<open>
  \<open>String.prototype.toLowerCase\<close> on 8-bit characters: the letters A to Z and the
  capital letters of the Latin-1 supplement.
\<close>

definition toLowerCase :: "char \<Rightarrow> char" where
  "toLowerCase c =
     (let n = (of_char c :: nat)
      in if (65 \<le> n \<and> n \<le> 90) \<or> (192 \<le> n \<and> n \<le> 222 \<and> n \<noteq> 215)
         then char_of (n + 32) else c)"

text \<open>\<open>s.replace(/^0x/, '')\<close>.\<close>

fun replace_0x :: "string \<Rightarrow> string" where
  "replace_0x (a # b # rest) = (if a = CHR ''0'' \<and> b = CHR ''x'' then rest else a # b # rest)"
| "replace_0x s = s"

definition isLowerHexDigit :: "char \<Rightarrow> bool" where
  "isLowerHexDigit c =
     (let n = (of_char c :: nat) in (48 \<le> n \<and> n \<le> 57) \<or> (97 \<le> n \<and> n \<le> 102))"

definition hexDigitValue :: "char \<Rightarrow> int option" where
  "hexDigitValue c =
     (let n = (of_char c :: nat)
      in if 48 \<le> n \<and> n \<le> 57 then Some (int n - 48)
         else if 97 \<le> n \<and> n \<le> 102 then Some (int n - 87)
         else if 65 \<le> n \<and> n \<le> 70 then Some (int n - 55)
         else None)"

text \<open>
  \<open>parseInt(s, 16)\<close>: leading white space is skipped, a sign is read, a prefix \<open>0x\<close> or
  \<open>0X\<close> is skipped, and the longest run of hexadecimal digits is the value; with no
  digit the result is \<open>NaN\<close>, here \<open>None\<close>.
\<close>

definition parseInt16 :: "string \<Rightarrow> int option" where
  "parseInt16 s =
     (let s1 = dropWhile isWhiteSpace s;
          sgn = (case s1 of c # _ \<Rightarrow> if c = CHR ''-'' then - 1 else 1 | [] \<Rightarrow> (1::int));
          s2 = (case s1 of c # r \<Rightarrow> if c = CHR ''-'' \<or> c = CHR ''+'' then r else s1 | [] \<Rightarrow> s1);
          s3 = (case s2 of
                  a # b # r \<Rightarrow>
                    if a = CHR ''0'' \<and> (b = CHR ''x'' \<or> b = CHR ''X'') then r else s2
                | _ \<Rightarrow> s2);
          ds = takeWhile (\<lambda>c. hexDigitValue c \<noteq> None) s3
      in if ds = [] then None
         else Some (sgn * foldl (\<lambda>acc c. 16 * acc + the (hexDigitValue c)) 0 ds))"

text \<open>Storing a number in a \<open>Uint8Array\<close>: \<open>NaN\<close> becomes 0, an integer is taken modulo 256.\<close>

definition toUint8 :: "int option \<Rightarrow> byte" where
  "toUint8 v = (case v of None \<Rightarrow> 0 | Some n \<Rightarrow> word_of_int n)"

text \<open>\<open>new TextEncoder().encode\<close>: UTF-8, of code units below 256.\<close>

definition utf8_encode :: "string \<Rightarrow> byte list" where
  "utf8_encode s =
     concat (map (\<lambda>c. let n = (of_char c :: nat)
                       in if n < 128 then [of_nat n]
                          else [of_nat (192 + n div 64), of_nat (128 + n mod 64)]) s)"

section \<open>auth.service.ts: errors and data\<close>

datatype bad_request =
    Wallet_pubkey_must_be_hex
  | Wallet_pubkey_must_start_with_01_or_02
  | Ed25519_pubkey_must_be_66_hex_chars nat
  | Secp256k1_pubkey_must_be_68_hex_chars nat
  | Unsupported_Casper_key_algorithm
  | Invalid_hex_length
  | Unexpected_ed25519_signature_length nat
  | Unexpected_secp256k1_signature_length nat

datatype unauthorized =
    Unknown_or_expired_challenge_id
  | Challenge_does_not_match_wallet_pubkey
  | Challenge_expired
  | Invalid_signature

text \<open>
  The exceptions of the authentication service; \<open>SignError\<close> is whatever
  \<open>jwtService.signAsync\<close> throws.
\<close>

datatype http_exception =
    BadRequestException bad_request
  | UnauthorizedException unauthorized
  | SignError

record StoredChallenge =
  walletPubkey :: string
  messageToSign :: string
  expiresAtMs :: int

type_synonym challenges = "string \<rightharpoonup> StoredChallenge"

record ChallengeResponseDto =
  ch_challenge_id :: string
  ch_wallet_pubkey :: string
  ch_message_to_sign :: string
  ch_expires_at :: string

record VerifyRequestDto =
  rq_wallet_pubkey :: string
  rq_challenge_id :: string
  rq_signature_hex :: string

record VerifyResponseDto =
  vr_ok :: bool
  vr_wallet_pubkey :: string
  vr_token :: string
  vr_expires_in_seconds :: int

text \<open>
  The libraries behind the service: \<open>nacl.sign.detached.verify(msg, sig, publicKey)\<close>,
  \<open>secp.verify(sig, msgHash, publicKey)\<close>, SHA-256 on bytes, and
  \<open>jwtService.signAsync\<close> applied to the subject, the scopes and the lifetime.
\<close>

record crypto =
  nacl_verify :: "byte list \<Rightarrow> byte list \<Rightarrow> byte list \<Rightarrow> bool"
  secp_verify :: "byte list \<Rightarrow> byte list \<Rightarrow> byte list \<Rightarrow> bool"
  sha256 :: "byte list \<Rightarrow> byte list"
  signAsync :: "string \<Rightarrow> string list \<Rightarrow> int \<Rightarrow> string option"

text \<open>
  What \<open>createChallenge\<close> draws from its environment: two random hex strings, the
  clock (read three times) and \<open>Date.prototype.toISOString\<close>.
\<close>

record challenge_env =
  randomHex_16 :: string
  randomHex_32 :: string
  toISOString :: "int \<Rightarrow> string"
  issuedAt_now :: int
  expiresAt_now :: int
  stored_now :: int

definition CHALLENGE_TTL_MS :: int where
  "CHALLENGE_TTL_MS = 5 * 60 * 1000"

definition JWT_EXPIRES_IN_SECONDS :: int where
  "JWT_EXPIRES_IN_SECONDS = 5 * 60"

datatype sig_alg = Ed25519 | Secp256k1

section \<open>auth.service.ts: functions\<close>

fun hexPairs :: "string \<Rightarrow> string list" where
  "hexPairs (a # b # rest) = [a, b] # hexPairs rest"
| "hexPairs s = []"

definition hexToBytes :: "string \<Rightarrow> http_exception + byte list" where
  "hexToBytes hex =
     (if length hex mod 2 \<noteq> 0 then Inl (BadRequestException Invalid_hex_length)
      else Inr (map (\<lambda>p. toUint8 (parseInt16 p)) (hexPairs hex)))"

definition assertPubkeyFormat :: "string \<Rightarrow> http_exception option" where
  "assertPubkeyFormat walletPubkeyHex =
     (let hex = replace_0x (map toLowerCase walletPubkeyHex)
      in if \<not> (hex \<noteq> [] \<and> list_all isLowerHexDigit hex) then
           Some (BadRequestException Wallet_pubkey_must_be_hex)
         else if \<not> (take 2 hex = ''01'' \<or> take 2 hex = ''02'') then
           Some (BadRequestException Wallet_pubkey_must_start_with_01_or_02)
         else if take 2 hex = ''01'' \<and> length hex \<noteq> 66 then
           Some (BadRequestException (Ed25519_pubkey_must_be_66_hex_chars (length hex)))
         else if take 2 hex = ''02'' \<and> length hex \<noteq> 68 then
           Some (BadRequestException (Secp256k1_pubkey_must_be_68_hex_chars (length hex)))
         else None)"

definition normalizeSignatureBytes :: "string \<Rightarrow> sig_alg \<Rightarrow> http_exception + byte list" where
  "normalizeSignatureBytes signatureHex alg =
     (let hex = replace_0x (map toLowerCase signatureHex)
      in case hexToBytes hex of
           Inl e \<Rightarrow> Inl e
         | Inr bytes \<Rightarrow>
             (case alg of
                Ed25519 \<Rightarrow>
                  if length bytes = 64 then Inr bytes
                  else if length bytes = 65 then Inr (drop 1 bytes)
                  else Inl (BadRequestException
                              (Unexpected_ed25519_signature_length (length bytes)))
              | Secp256k1 \<Rightarrow>
                  if length bytes = 64 \<or> length bytes = 65 then Inr bytes
                  else Inl (BadRequestException
                              (Unexpected_secp256k1_signature_length (length bytes)))))"

definition candidateMessages :: "string \<Rightarrow> byte list list" where
  "candidateMessages message =
     [utf8_encode (''Casper Message:'' @ [CHR 0x0A] @ message), utf8_encode message]"

definition verifyCasperSignature ::
  "crypto \<Rightarrow> string \<Rightarrow> string \<Rightarrow> string \<Rightarrow> http_exception + bool" where
  "verifyCasperSignature cr walletPubkeyHex message signatureHex =
     (let keyTag = map toLowerCase (take 2 walletPubkeyHex)
      in if keyTag = ''01'' then
           (case hexToBytes (drop 2 walletPubkeyHex) of
              Inl e \<Rightarrow> Inl e
            | Inr pubKeyBytes \<Rightarrow>
                (case normalizeSignatureBytes signatureHex Ed25519 of
                   Inl e \<Rightarrow> Inl e
                 | Inr sigBytes \<Rightarrow>
                     Inr (list_ex (\<lambda>msgBytes. nacl_verify cr msgBytes sigBytes pubKeyBytes)
                            (candidateMessages message))))
         else if keyTag = ''02'' then
           (case hexToBytes (drop 2 walletPubkeyHex) of
              Inl e \<Rightarrow> Inl e
            | Inr pubKeyBytes \<Rightarrow>
                (case normalizeSignatureBytes signatureHex Secp256k1 of
                   Inl e \<Rightarrow> Inl e
                 | Inr sigBytes \<Rightarrow>
                     (let sig64 = (if length sigBytes = 65 then take 64 sigBytes else sigBytes)
                      in Inr (list_ex
                                (\<lambda>msgBytes. secp_verify cr sig64 (sha256 cr msgBytes) pubKeyBytes)
                                (candidateMessages message)))))
         else Inl (BadRequestException Unsupported_Casper_key_algorithm))"

definition createChallenge ::
  "challenge_env \<Rightarrow> challenges \<Rightarrow> string \<Rightarrow>
   (http_exception + ChallengeResponseDto) \<times> challenges" where
  "createChallenge env chs walletPubkeyRaw =
     (let wallet_pubkey = trim walletPubkeyRaw
      in case assertPubkeyFormat wallet_pubkey of
           Some e \<Rightarrow> (Inl e, chs)
         | None \<Rightarrow>
             (let challenge_id = randomHex_16 env;
                  nonce = randomHex_32 env;
                  issuedAt = toISOString env (issuedAt_now env);
                  expiresAt = toISOString env (expiresAt_now env + CHALLENGE_TTL_MS);
                  message_to_sign =
                    ''LegalProof|auth|wallet_pubkey='' @ wallet_pubkey @
                    ''|nonce='' @ nonce @
                    ''|issued_at='' @ issuedAt @
                    ''|purpose=prove_wallet_ownership''
              in (Inr \<lparr>ch_challenge_id = challenge_id, ch_wallet_pubkey = wallet_pubkey,
                       ch_message_to_sign = message_to_sign, ch_expires_at = expiresAt\<rparr>,
                  chs(challenge_id \<mapsto>
                        \<lparr>walletPubkey = wallet_pubkey, messageToSign = message_to_sign,
                         expiresAtMs = stored_now env + CHALLENGE_TTL_MS\<rparr>))))"

text \<open>\<open>verifySignatureAndIssueToken\<close>; \<open>now\<close> is what \<open>Date.now()\<close> returns.\<close>

definition verifySignatureAndIssueToken ::
  "crypto \<Rightarrow> challenges \<Rightarrow> VerifyRequestDto \<Rightarrow> int \<Rightarrow>
   (http_exception + VerifyResponseDto) \<times> challenges" where
  "verifySignatureAndIssueToken cr chs body now =
     (let wallet_pubkey = trim (rq_wallet_pubkey body);
          challenge_id = trim (rq_challenge_id body);
          signature_hex = trim (rq_signature_hex body)
      in case assertPubkeyFormat wallet_pubkey of
           Some e \<Rightarrow> (Inl e, chs)
         | None \<Rightarrow>
             (case chs challenge_id of
                None \<Rightarrow> (Inl (UnauthorizedException Unknown_or_expired_challenge_id), chs)
              | Some stored \<Rightarrow>
                  if walletPubkey stored \<noteq> wallet_pubkey then
                    (Inl (UnauthorizedException Challenge_does_not_match_wallet_pubkey), chs)
                  else if now > expiresAtMs stored then
                    (Inl (UnauthorizedException Challenge_expired), chs(challenge_id := None))
                  else
                    (case verifyCasperSignature cr wallet_pubkey (messageToSign stored)
                            signature_hex of
                       Inl e \<Rightarrow> (Inl e, chs)
                     | Inr ok \<Rightarrow>
                         if \<not> ok then (Inl (UnauthorizedException Invalid_signature), chs)
                         else
                           (case signAsync cr wallet_pubkey [''proof:create'', ''proof:revoke'']
                                   JWT_EXPIRES_IN_SECONDS of
                              None \<Rightarrow> (Inl SignError, chs(challenge_id := None))
                            | Some token \<Rightarrow>
                                (Inr \<lparr>vr_ok = True, vr_wallet_pubkey = wallet_pubkey,
                                      vr_token = token,
                                      vr_expires_in_seconds = JWT_EXPIRES_IN_SECONDS\<rparr>,
                                 chs(challenge_id := None))))))"

section \<open>Values for the worked examples\<close>

text \<open>
  A runtime whose hash is the identity and whose years have 365 days, two dates, two
  birthdates, and the tables that a creation for an adult on 2024-06-01 and then a
  creation for a minor on 2024-07-01 produce for wallet \<open>01aa\<close>.
\<close>

definition sample_runtime :: runtime where
  "sample_runtime =
     \<lparr>sha256_hex = (\<lambda>s. s), USER_HASH_SALT = None,
      setFullYear =
        (\<lambda>d y. d\<lparr>getTime := getTime d + (y - getFullYear d) * 31536000000,
                    getFullYear := y\<rparr>)\<rparr>"

definition date_2024_06_01 :: jsdate where
  "date_2024_06_01 =
     \<lparr>getTime = 1717200000000, getFullYear = 2024, getMonth = 5, getDate = 1\<rparr>"

definition date_2024_07_01 :: jsdate where
  "date_2024_07_01 =
     \<lparr>getTime = 1719792000000, getFullYear = 2024, getMonth = 6, getDate = 1\<rparr>"

definition born_2000_01_01 :: BirthDate where
  "born_2000_01_01 = \<lparr>day = 1, month = 1, year = 2000\<rparr>"

definition born_2010_01_01 :: BirthDate where
  "born_2010_01_01 = \<lparr>day = 1, month = 1, year = 2010\<rparr>"

definition row_major :: AgeProofEntity where
  "row_major =
     \<lparr>row_id = 1, session_id = None, wallet_pubkey = ''01aa'',
      user_hash = ''01aa:legalproof_v1_default_salt'', claim_type = ''AGE_18_PLUS'',
      age = 24, is_major = True, valid_from = 1717200000000, valid_until = 1780272000000,
      revoked = False, deploy_hash = None, created_at = 1717200000000\<rparr>"

definition row_minor :: AgeProofEntity where
  "row_minor =
     \<lparr>row_id = 2, session_id = None, wallet_pubkey = ''01aa'',
      user_hash = ''01aa:legalproof_v1_default_salt'', claim_type = ''AGE_18_PLUS'',
      age = 14, is_major = False, valid_from = 1719792000000, valid_until = 1782864000000,
      revoked = True, deploy_hash = None, created_at = 1719792000000\<rparr>"

definition table_major :: age_proofs_table where
  "table_major = \<lparr>rows = [row_major], id_seq = 2\<rparr>"

definition table_major_minor :: age_proofs_table where
  "table_major_minor = \<lparr>rows = [row_major, row_minor], id_seq = 3\<rparr>"




text \<open>
  For the authentication service: libraries that accept every signature, an Ed25519 key,
  a signature of 64 bytes and one of 65 bytes (\<open>aa\<close> followed by 64 times \<open>bb\<close>), and
  the challenge that \<open>createChallenge\<close> stores for the key at time 1000.
\<close>

definition sample_crypto :: crypto where
  "sample_crypto =
     \<lparr>nacl_verify = (\<lambda>msg sg pk. True), secp_verify = (\<lambda>sg h pk. True),
      sha256 = (\<lambda>bs. bs), signAsync = (\<lambda>sub scope ttl. Some ''jwt'')\<rparr>"

definition sample_wallet :: string where
  "sample_wallet = ''01aaaaaaaaaaaaaaaaaaaaaaaaaaaaaaaaaaaaaaaaaaaaaaaaaaaaaaaaaaaaaaaa''"

definition sample_signature :: string where
  "sample_signature = ''11111111111111111111111111111111111111111111111111111111111111111111111111111111111111111111111111111111111111111111111111111111''"

definition signature_65_bytes :: string where
  "signature_65_bytes = ''aabbbbbbbbbbbbbbbbbbbbbbbbbbbbbbbbbbbbbbbbbbbbbbbbbbbbbbbbbbbbbbbbbbbbbbbbbbbbbbbbbbbbbbbbbbbbbbbbbbbbbbbbbbbbbbbbbbbbbbbbbbbbbbbb''"

definition bytes_64_bb :: "byte list" where
  "bytes_64_bb = [0xBB, 0xBB, 0xBB, 0xBB, 0xBB, 0xBB, 0xBB, 0xBB, 0xBB, 0xBB, 0xBB, 0xBB, 0xBB, 0xBB, 0xBB, 0xBB, 0xBB, 0xBB, 0xBB, 0xBB, 0xBB, 0xBB, 0xBB, 0xBB, 0xBB, 0xBB, 0xBB, 0xBB, 0xBB, 0xBB, 0xBB, 0xBB, 0xBB, 0xBB, 0xBB, 0xBB, 0xBB, 0xBB, 0xBB, 0xBB, 0xBB, 0xBB, 0xBB, 0xBB, 0xBB, 0xBB, 0xBB, 0xBB, 0xBB, 0xBB, 0xBB, 0xBB, 0xBB, 0xBB, 0xBB, 0xBB, 0xBB, 0xBB, 0xBB, 0xBB, 0xBB, 0xBB, 0xBB, 0xBB]"

definition sample_env :: challenge_env where
  "sample_env =
     \<lparr>randomHex_16 = ''c0ffee'', randomHex_32 = ''abcd'', toISOString = (\<lambda>ms. ''T''),
      issuedAt_now = 1000, expiresAt_now = 1000, stored_now = 1000\<rparr>"

definition sample_stored :: StoredChallenge where
  "sample_stored =
     \<lparr>walletPubkey = sample_wallet,
      messageToSign =
        ''LegalProof|auth|wallet_pubkey='' @ sample_wallet @
        ''|nonce=abcd|issued_at=T|purpose=prove_wallet_ownership'',
      expiresAtMs = 301000\<rparr>"

definition sample_challenges :: challenges where
  "sample_challenges = [''c0ffee'' \<mapsto> sample_stored]"

definition sample_request :: VerifyRequestDto where
  "sample_request =
     \<lparr>rq_wallet_pubkey = sample_wallet, rq_challenge_id = ''c0ffee'',
      rq_signature_hex = sample_signature\<rparr>"

section \<open>Lemmas on the repository and the operations\<close>

lemma findOne_None_iff:
  "findOne_created_at_DESC P rs = None \<longleftrightarrow> (\<forall>r \<in> set rs. \<not> P r)"
  by (induction rs) (auto split: option.splits)

lemma findOne_Some_sound:
  "findOne_created_at_DESC P rs = Some r \<Longrightarrow>
     r \<in> set rs \<and> P r \<and> (\<forall>x \<in> set rs. P x \<longrightarrow> created_at x \<le> created_at r)"
proof (induction rs arbitrary: r)
  case Nil
  then show ?case by simp
next
  case (Cons y ys)
  show ?case
  proof (cases "findOne_created_at_DESC P ys")
    case None
    with Cons.prems have "P y" "r = y" by (auto split: if_splits)
    moreover from None have "\<forall>x \<in> set ys. \<not> P x" by (simp add: findOne_None_iff)
    ultimately show ?thesis by auto
  next
    case (Some b)
    from Cons.IH [OF Some] have b: "b \<in> set ys" "P b"
      "\<forall>x \<in> set ys. P x \<longrightarrow> created_at x \<le> created_at b" by auto
    show ?thesis
    proof (cases "P y \<and> created_at b < created_at y")
      case True
      with Some Cons.prems have "r = y" by simp
      with True b show ?thesis by force
    next
      case False
      with Some Cons.prems have "r = b" by auto
      with False b show ?thesis by force
    qed
  qed
qed

lemma findOne_most_recent:
  "most_recent P rs r \<Longrightarrow> findOne_created_at_DESC P rs = Some r"
proof (induction rs)
  case Nil
  then show ?case by (simp add: most_recent_def)
next
  case (Cons y ys)
  show ?case
  proof (cases "r \<in> set ys")
    case True
    with Cons.prems have "most_recent P ys r" by (auto simp: most_recent_def)
    with Cons.IH have "findOne_created_at_DESC P ys = Some r" by simp
    moreover from Cons.prems have "P y \<longrightarrow> y = r \<or> created_at y < created_at r"
      by (auto simp: most_recent_def)
    ultimately show ?thesis by auto
  next
    case False
    with Cons.prems have ry: "r = y" "P y" by (auto simp: most_recent_def)
    show ?thesis
    proof (cases "findOne_created_at_DESC P ys")
      case None
      with ry show ?thesis by simp
    next
      case (Some b)
      then have "b \<in> set ys" "P b" using findOne_Some_sound by blast+
      with Cons.prems False ry have "created_at b < created_at y"
        by (auto simp: most_recent_def)
      with Some ry show ?thesis by simp
    qed
  qed
qed

lemma findOne_append_not:
  "\<not> P x \<Longrightarrow> findOne_created_at_DESC P (rs @ [x]) = findOne_created_at_DESC P rs"
  by (induction rs) (auto split: option.splits)





lemma create_minor_table:
  "\<not> ac_isMajor (computeAge b ageNow) \<Longrightarrow>
     snd (createAge18PlusClaimIfMajor rt t w b vy sid paramsNow ageNow ins) =
       save_new t
         \<lparr>row_id = 0, session_id = sid, wallet_pubkey = w,
          user_hash = computeUserHash rt w, claim_type = CLAIM_TYPE,
          age = ac_age (computeAge b ageNow), is_major = False,
          valid_from = (getTime paramsNow div 1000) * 1000,
          valid_until =
            (getTime (setFullYear rt paramsNow (getFullYear paramsNow + vy)) div 1000) * 1000,
          revoked = True, deploy_hash = None, created_at = 0\<rparr> ins"
  by (simp add: createAge18PlusClaimIfMajor_def buildAge18PlusClaimParams_def Let_def)








lemma status_when_active_valid:
  assumes "most_recent (\<lambda>r. of_wallet w r \<and> \<not> revoked r \<and> is_major r) (rows t) a"
    and "valid_from a \<le> now" and "now \<le> valid_until a"
  shows "getAge18PlusStatus t w now =
           \<lparr>st_wallet_pubkey = w, st_has_proof = True, st_is_major = True, st_revoked = False,
            st_valid_from = Some (valid_from a div 1000),
            st_valid_until = Some (valid_until a div 1000),
            st_deploy_hash = deploy_hash a\<rparr>"
proof -
  from findOne_most_recent [OF assms(1)]
  have "findOne_created_at_DESC
          (\<lambda>r. wallet_pubkey r = w \<and> claim_type r = CLAIM_TYPE \<and> revoked r = False \<and> is_major r = True)
          (rows t) = Some a"
    by (simp add: of_wallet_def conj_assoc)
  with assms(2,3) show ?thesis by (simp add: getAge18PlusStatus_def)
qed

lemma status_when_no_active_valid:
  assumes "(\<forall>r \<in> set (rows t). \<not> (of_wallet w r \<and> \<not> revoked r \<and> is_major r)) \<or>
           (most_recent (\<lambda>r. of_wallet w r \<and> \<not> revoked r \<and> is_major r) (rows t) a \<and>
            \<not> (valid_from a \<le> now \<and> now \<le> valid_until a))"
  shows "getAge18PlusStatus t w now =
           (case findOne_created_at_DESC (of_wallet w) (rows t) of
              None \<Rightarrow>
                \<lparr>st_wallet_pubkey = w, st_has_proof = False, st_is_major = False,
                 st_revoked = False, st_valid_from = None, st_valid_until = None,
                 st_deploy_hash = None\<rparr>
            | Some latest \<Rightarrow>
                \<lparr>st_wallet_pubkey = w, st_has_proof = True, st_is_major = False,
                 st_revoked = revoked latest,
                 st_valid_from = Some (valid_from latest div 1000),
                 st_valid_until = Some (valid_until latest div 1000),
                 st_deploy_hash = deploy_hash latest\<rparr>)"
proof -
  have ow: "of_wallet w = (\<lambda>r. wallet_pubkey r = w \<and> claim_type r = CLAIM_TYPE)"
    by (rule ext) (simp add: of_wallet_def)
  from assms show ?thesis
  proof
    assume "\<forall>r \<in> set (rows t). \<not> (of_wallet w r \<and> \<not> revoked r \<and> is_major r)"
    then have "findOne_created_at_DESC
          (\<lambda>r. wallet_pubkey r = w \<and> claim_type r = CLAIM_TYPE \<and> revoked r = False \<and> is_major r = True)
          (rows t) = None"
      by (simp add: findOne_None_iff of_wallet_def)
    then show ?thesis by (simp add: getAge18PlusStatus_def ow)
  next
    assume h: "most_recent (\<lambda>r. of_wallet w r \<and> \<not> revoked r \<and> is_major r) (rows t) a \<and>
            \<not> (valid_from a \<le> now \<and> now \<le> valid_until a)"
    from findOne_most_recent [of _ "rows t" a] h
    have "findOne_created_at_DESC
          (\<lambda>r. wallet_pubkey r = w \<and> claim_type r = CLAIM_TYPE \<and> revoked r = False \<and> is_major r = True)
          (rows t) = Some a"
      by (simp add: of_wallet_def conj_assoc)
    with h show ?thesis by (auto simp add: getAge18PlusStatus_def ow)
  qed
qed

lemma create_minor_result:
  "\<not> ac_isMajor (computeAge b ageNow) \<Longrightarrow>
     isMajor (fst (createAge18PlusClaimIfMajor rt t w b vy sid paramsNow ageNow ins)) = False \<and>
     claimCreated (fst (createAge18PlusClaimIfMajor rt t w b vy sid paramsNow ageNow ins)) = False \<and>
     deployHash (fst (createAge18PlusClaimIfMajor rt t w b vy sid paramsNow ageNow ins)) = None"
  by (simp add: createAge18PlusClaimIfMajor_def Let_def)

lemma status_append_revoked:
  assumes "revoked r" and "st_is_major (getAge18PlusStatus t w now)"
  shows "getAge18PlusStatus (t\<lparr>rows := rows t @ [r], id_seq := n\<rparr>) w now = getAge18PlusStatus t w now"
proof -
  let ?P = "\<lambda>r. wallet_pubkey r = w \<and> claim_type r = CLAIM_TYPE \<and> revoked r = False \<and> is_major r = True"
  have same: "findOne_created_at_DESC ?P (rows t @ [r]) = findOne_created_at_DESC ?P (rows t)"
    using assms(1) by (simp add: findOne_append_not)
  from assms(2) obtain a where a: "findOne_created_at_DESC ?P (rows t) = Some a"
    "valid_from a \<le> now" "now \<le> valid_until a"
    by (auto simp: getAge18PlusStatus_def Let_def split: option.splits if_splits)
  with same show ?thesis by (simp add: getAge18PlusStatus_def)
qed

lemma short_list_unique:
  "length xs \<le> 1 \<Longrightarrow> x \<in> set xs \<Longrightarrow> y \<in> set xs \<Longrightarrow> x = y"
  by (cases xs) auto

lemma active_unique:
  assumes "active_count t w ct \<le> 1"
    and "x \<in> set (rows t)" "wallet_pubkey x = w" "claim_type x = ct" "\<not> revoked x"
    and "y \<in> set (rows t)" "wallet_pubkey y = w" "claim_type y = ct" "\<not> revoked y"
  shows "x = y"
proof -
  let ?xs = "filter (\<lambda>r. wallet_pubkey r = w \<and> claim_type r = ct \<and> \<not> revoked r) (rows t)"
  have "length ?xs \<le> 1" using assms(1) by (simp add: active_count_def)
  moreover have "x \<in> set ?xs" "y \<in> set ?xs" using assms by auto
  ultimately show ?thesis by (rule short_list_unique)
qed

lemma revoke_nothing_active:
  assumes "findOne_created_at_DESC
             (\<lambda>r. wallet_pubkey r = w \<and> claim_type r = CLAIM_TYPE \<and> revoked r = False) (rows t) = None"
  shows "snd (revokeAge18PlusClaim t w) = t"
    and "rv_had_proof (fst (revokeAge18PlusClaim t w)) = (\<exists>r \<in> set (rows t). of_wallet w r)"
    and "rv_revoked (fst (revokeAge18PlusClaim t w)) = (\<exists>r \<in> set (rows t). of_wallet w r)"
proof -
  have ow: "of_wallet w = (\<lambda>r. wallet_pubkey r = w \<and> claim_type r = CLAIM_TYPE)"
    by (rule ext) (simp add: of_wallet_def)
  show "snd (revokeAge18PlusClaim t w) = t"
    using assms by (simp add: revokeAge18PlusClaim_def split: option.splits)
  show "rv_had_proof (fst (revokeAge18PlusClaim t w)) = (\<exists>r \<in> set (rows t). of_wallet w r)"
    using assms findOne_None_iff [of "of_wallet w" "rows t"]
    by (auto simp add: revokeAge18PlusClaim_def ow split: option.splits)
  show "rv_revoked (fst (revokeAge18PlusClaim t w)) = (\<exists>r \<in> set (rows t). of_wallet w r)"
    using assms findOne_None_iff [of "of_wallet w" "rows t"]
    by (auto simp add: revokeAge18PlusClaim_def ow split: option.splits)
qed

lemma revoke_active:
  assumes "findOne_created_at_DESC
             (\<lambda>r. wallet_pubkey r = w \<and> claim_type r = CLAIM_TYPE \<and> revoked r = False) (rows t) = Some a"
  shows "revokeAge18PlusClaim t w =
           (\<lparr>rv_wallet_pubkey = w, rv_claim_type = CLAIM_TYPE,
             rv_had_proof = True, rv_revoked = True, rv_deploy_hash = deploy_hash a,
             rv_valid_from = Some (valid_from a div 1000),
             rv_valid_until = Some (valid_until a div 1000)\<rparr>,
            save_loaded t (a\<lparr>revoked := True\<rparr>))"
  using assms by (simp add: revokeAge18PlusClaim_def)

lemma revoke_history:
  assumes "findOne_created_at_DESC
             (\<lambda>r. wallet_pubkey r = w \<and> claim_type r = CLAIM_TYPE \<and> revoked r = False) (rows t) = None"
    and "findOne_created_at_DESC (of_wallet w) (rows t) = Some l"
  shows "revokeAge18PlusClaim t w =
           (\<lparr>rv_wallet_pubkey = w, rv_claim_type = CLAIM_TYPE,
             rv_had_proof = True, rv_revoked = True, rv_deploy_hash = deploy_hash l,
             rv_valid_from = Some (valid_from l div 1000),
             rv_valid_until = Some (valid_until l div 1000)\<rparr>, t)"
proof -
  have ow: "of_wallet w = (\<lambda>r. wallet_pubkey r = w \<and> claim_type r = CLAIM_TYPE)"
    by (rule ext) (simp add: of_wallet_def)
  show ?thesis using assms by (simp add: revokeAge18PlusClaim_def ow)
qed

lemmas sample_defs =
  sample_runtime_def date_2024_06_01_def date_2024_07_01_def born_2000_01_01_def
  born_2010_01_01_def row_major_def row_minor_def table_major_def table_major_minor_def

lemmas service_defs =
  createAge18PlusClaimIfMajor_def buildAge18PlusClaimParams_def
  computeAge_def computeUserHash_def getUserHashSalt_def trim_def isWhiteSpace_def
  save_new_def save_loaded_def update_set_revoked_def empty_table_def CLAIM_TYPE_def
  revokeAge18PlusClaim_def getAge18PlusStatus_def


lemma minor_2010: "\<not> ac_isMajor (computeAge born_2010_01_01 date_2024_07_01)"
  by (simp add: computeAge_def sample_defs)

lemma table_major_created:
  "createAge18PlusClaimIfMajor sample_runtime empty_table ''01aa'' born_2000_01_01 2 None
     date_2024_06_01 date_2024_06_01 1717200000000 =
   (\<lparr>isMajor = True, claimCreated = True, deployHash = None,
     claimParams =
       \<lparr>cp_user_hash = ''01aa:legalproof_v1_default_salt'', cp_claim_type = ''AGE_18_PLUS'',
        cp_value = True, cp_valid_from = 1717200000, cp_valid_until = 1780272000,
        cp_revoked = False\<rparr>\<rparr>, table_major)"
  by (simp add: service_defs sample_defs)

lemma table_major_minor_created:
  "createAge18PlusClaimIfMajor sample_runtime table_major ''01aa'' born_2010_01_01 2 None
     date_2024_07_01 date_2024_07_01 1719792000000 =
   (\<lparr>isMajor = False, claimCreated = False, deployHash = None,
     claimParams =
       \<lparr>cp_user_hash = ''01aa:legalproof_v1_default_salt'', cp_claim_type = ''AGE_18_PLUS'',
        cp_value = False, cp_valid_from = 1719792000, cp_valid_until = 1782864000,
        cp_revoked = True\<rparr>\<rparr>, table_major_minor)"
  by (simp add: service_defs sample_defs)

lemma reachable_table_major: "reachable_serial sample_runtime table_major"
  using serial_create [OF serial_empty, of sample_runtime "''01aa''" born_2000_01_01 2 None
      date_2024_06_01 date_2024_06_01 1717200000000]
  by (simp add: table_major_created)

lemma reachable_table_major_minor: "reachable_serial sample_runtime table_major_minor"
  using serial_create [OF reachable_table_major, of "''01aa''" born_2010_01_01 2 None
      date_2024_07_01 date_2024_07_01 1719792000000]
  by (simp add: table_major_minor_created)

lemma row_major_most_recent_active:
  "most_recent (\<lambda>r. of_wallet ''01aa'' r \<and> \<not> revoked r \<and> is_major r) [row_major] row_major"
  by (simp add: most_recent_def of_wallet_def CLAIM_TYPE_def row_major_def)

lemma row_major_most_recent:
  "most_recent (of_wallet ''01aa'') [row_major] row_major"
  by (simp add: most_recent_def of_wallet_def CLAIM_TYPE_def row_major_def)

lemma create_major_statements:
  "ac_isMajor (computeAge b ageNow) \<Longrightarrow>
     snd (createAge18PlusClaimIfMajor rt t w b vy sid paramsNow ageNow ins) =
       save_new (update_set_revoked t w) (rotation_row rt w b vy sid paramsNow ageNow) ins"
  by (simp add: createAge18PlusClaimIfMajor_def rotation_row_def Let_def)

lemma interleaved_whole_rotation:
  assumes "reachable_interleaved rt t []" and "ac_isMajor (computeAge b ageNow)"
  shows "reachable_interleaved rt
           (snd (createAge18PlusClaimIfMajor rt t w b vy sid paramsNow ageNow ins)) []"
proof -
  let ?p = "\<lparr>ro_row = rotation_row rt w b vy sid paramsNow ageNow,
             ro_locked = (\<exists>r \<in> set (rows t). of_wallet w r \<and> \<not> revoked r)\<rparr>"
  have "reachable_interleaved rt (update_set_revoked t w) [?p]"
    by (rule interleaved_rotation_update [OF assms]) simp
  then have "reachable_interleaved rt (save_new (update_set_revoked t w) (ro_row ?p) ins)
               (remove1 ?p [?p])"
    by (rule interleaved_rotation_insert) simp
  then show ?thesis
    by (simp add: create_major_statements [OF assms(2)])
qed



section \<open>Lemmas on the ledger-anchoring revision\<close>




section \<open>Lemmas on the authentication service\<close>

lemma char_of_eq: "(char_of (n::nat) = c) = (n mod 256 = of_char c)"
  by (metis char_of_char of_char_of)

lemma trim_sample_wallet: "trim sample_wallet = sample_wallet"
  by (simp add: trim_def isWhiteSpace_def sample_wallet_def)

lemma trim_c0ffee: "trim ''c0ffee'' = ''c0ffee''"
  by (simp add: trim_def isWhiteSpace_def)

lemma trim_sample_signature: "trim sample_signature = sample_signature"
  by (simp add: trim_def isWhiteSpace_def sample_signature_def)

lemma assert_sample_wallet: "assertPubkeyFormat sample_wallet = None"
  by (simp add: assertPubkeyFormat_def sample_wallet_def toLowerCase_def isLowerHexDigit_def
      char_of_eq)

lemma createChallenge_sample:
  "createChallenge sample_env Map.empty sample_wallet =
     (Inr \<lparr>ch_challenge_id = ''c0ffee'', ch_wallet_pubkey = sample_wallet,
           ch_message_to_sign = messageToSign sample_stored, ch_expires_at = ''T''\<rparr>,
      sample_challenges)"
  by (simp add: createChallenge_def Let_def trim_sample_wallet assert_sample_wallet sample_env_def
      sample_challenges_def sample_stored_def CHALLENGE_TTL_MS_def)

lemma normalize_sample_signature:
  "\<exists>bs. normalizeSignatureBytes sample_signature Ed25519 = Inr bs"
  by (simp add: normalizeSignatureBytes_def hexToBytes_def toLowerCase_def char_of_eq
      sample_signature_def)

lemma verifyCasper_sample:
  "verifyCasperSignature sample_crypto sample_wallet m sample_signature = Inr True"
proof -
  obtain bs where bs: "normalizeSignatureBytes sample_signature Ed25519 = Inr bs"
    using normalize_sample_signature by blast
  have tag: "map toLowerCase (take 2 sample_wallet) = ''01''"
    by (simp add: sample_wallet_def toLowerCase_def)
  have pk: "\<exists>pk. hexToBytes (drop 2 sample_wallet) = Inr pk"
    by (simp add: hexToBytes_def sample_wallet_def)
  then obtain pk where pk: "hexToBytes (drop 2 sample_wallet) = Inr pk" by blast
  show ?thesis
    by (simp add: verifyCasperSignature_def tag pk bs candidateMessages_def sample_crypto_def)
qed

lemma verify_sample:
  "verifySignatureAndIssueToken sample_crypto sample_challenges sample_request 2000 =
     (Inr \<lparr>vr_ok = True, vr_wallet_pubkey = sample_wallet, vr_token = ''jwt'',
           vr_expires_in_seconds = 300\<rparr>,
      sample_challenges(''c0ffee'' := None))"
  by (simp add: verifySignatureAndIssueToken_def Let_def sample_request_def trim_sample_wallet
      trim_c0ffee trim_sample_signature assert_sample_wallet sample_challenges_def
      verifyCasper_sample JWT_EXPIRES_IN_SECONDS_def)
    (simp add: sample_stored_def sample_crypto_def JWT_EXPIRES_IN_SECONDS_def)


lemma verify_success_consumes:
  "verifySignatureAndIssueToken cr chs body now = (Inr resp, chs') \<Longrightarrow>
     chs' = chs(trim (rq_challenge_id body) := None)"
  by (auto simp: verifySignatureAndIssueToken_def Let_def
      split: option.splits if_splits sum.splits)

lemma verify_unknown_id:
  "chs (trim (rq_challenge_id body)) = None \<Longrightarrow>
     verifySignatureAndIssueToken cr chs body now =
       (case assertPubkeyFormat (trim (rq_wallet_pubkey body)) of
          None \<Rightarrow> (Inl (UnauthorizedException Unknown_or_expired_challenge_id), chs)
        | Some e \<Rightarrow> (Inl e, chs))"
  by (simp add: verifySignatureAndIssueToken_def Let_def split: option.splits)

lemma normalize_cases:
  assumes "hexToBytes (replace_0x (map toLowerCase signatureHex)) = Inr bytes"
  shows "normalizeSignatureBytes signatureHex Ed25519 =
           (if length bytes = 64 then Inr bytes
            else if length bytes = 65 then Inr (drop 1 bytes)
            else Inl (BadRequestException (Unexpected_ed25519_signature_length (length bytes))))"
    and "normalizeSignatureBytes signatureHex Secp256k1 =
           (if length bytes = 64 \<or> length bytes = 65 then Inr bytes
            else Inl (BadRequestException (Unexpected_secp256k1_signature_length (length bytes))))"
  using assms by (simp_all add: normalizeSignatureBytes_def)

lemma pair_aa: "toUint8 (parseInt16 ''aa'') = 0xAA"
  by (simp add: parseInt16_def hexDigitValue_def isWhiteSpace_def toUint8_def)

lemma pair_bb: "toUint8 (parseInt16 ''bb'') = 0xBB"
  by (simp add: parseInt16_def hexDigitValue_def isWhiteSpace_def toUint8_def)

lemma signature_65_bytes_lower:
  "replace_0x (map toLowerCase signature_65_bytes) = signature_65_bytes"
  by (simp add: signature_65_bytes_def toLowerCase_def)

lemma hexToBytes_signature_65_bytes:
  "hexToBytes signature_65_bytes = Inr (0xAA # bytes_64_bb)"
  by (simp add: hexToBytes_def signature_65_bytes_def bytes_64_bb_def pair_aa pair_bb)

lemma replace_0x_unprefixed: "take 2 s \<noteq> ''0x'' \<Longrightarrow> replace_0x s = s"
  by (cases s rule: replace_0x.cases) auto

lemma assert_prefixed:
  assumes "assertPubkeyFormat k = None" and "map toLowerCase (take 2 k) \<in> {''01'', ''02''}"
  shows "assertPubkeyFormat (''0x'' @ k) = None"
proof -
  from assms(2) have "take 2 (map toLowerCase k) \<noteq> ''0x''"
    by (auto simp: take_map)
  then have "replace_0x (map toLowerCase k) = map toLowerCase k"
    by (rule replace_0x_unprefixed)
  moreover have "replace_0x (map toLowerCase (''0x'' @ k)) = map toLowerCase k"
    by (simp add: toLowerCase_def)
  ultimately show ?thesis using assms(1) by (simp add: assertPubkeyFormat_def)
qed

lemma verifyCasper_prefixed:
  "verifyCasperSignature cr (CHR ''0'' # CHR ''x'' # k) message sg =
     Inl (BadRequestException Unsupported_Casper_key_algorithm)"
  by (simp add: verifyCasperSignature_def toLowerCase_def)

lemma trim_prefixed_sample: "trim (''0x'' @ sample_wallet) = ''0x'' @ sample_wallet"
  by (simp add: trim_def isWhiteSpace_def sample_wallet_def)

lemma verify_success_wellformed:
  "verifySignatureAndIssueToken cr chs body now = (Inr resp, chs') \<Longrightarrow>
     assertPubkeyFormat (trim (rq_wallet_pubkey body)) = None"
  by (auto simp: verifySignatureAndIssueToken_def Let_def split: option.splits)

lemma createChallenge_stores_wellformed:
  "createChallenge env chs0 raw = (Inr dto, chs1) \<Longrightarrow>
     (\<exists>stored. chs1 (ch_challenge_id dto) = Some stored \<and>
        walletPubkey stored = ch_wallet_pubkey dto \<and>
        assertPubkeyFormat (walletPubkey stored) = None)"
  by (auto simp: createChallenge_def Let_def split: option.splits)

lemma revoke_twice_flags:
  "active_count t w CLAIM_TYPE \<le> 1 \<Longrightarrow>
     (case revokeAge18PlusClaim t w of
        (r1, t1) \<Rightarrow>
          (case revokeAge18PlusClaim t1 w of
             (r2, t2) \<Rightarrow>
               t2 = t1 \<and> length (rows t1) = length (rows t)
             \<and> rv_had_proof r1 = (\<exists>r \<in> set (rows t). of_wallet w r)
             \<and> rv_revoked r1 = (\<exists>r \<in> set (rows t). of_wallet w r)
             \<and> rv_had_proof r2 = rv_had_proof r1
             \<and> rv_revoked r2 = rv_revoked r1
             \<and> ((\<forall>r \<in> set (rows t). of_wallet w r \<longrightarrow> revoked r) \<or>
                 (\<exists>a. most_recent (of_wallet w) (rows t) a \<and> \<not> revoked a) \<longrightarrow> r2 = r1)))"
proof -
  assume inv: "active_count t w CLAIM_TYPE \<le> 1"
  let ?A = "\<lambda>r. wallet_pubkey r = w \<and> claim_type r = CLAIM_TYPE \<and> revoked r = False"
  show ?thesis
  proof (cases "findOne_created_at_DESC ?A (rows t)")
    case None
    from revoke_nothing_active [OF None] show ?thesis
      by (simp add: case_prod_beta)
  next
    case (Some a)
    let ?a' = "a\<lparr>revoked := True\<rparr>"
    let ?t1 = "save_loaded t ?a'"
    from findOne_Some_sound [OF Some]
    have a: "a \<in> set (rows t)" "wallet_pubkey a = w" "claim_type a = CLAIM_TYPE" "\<not> revoked a"
      by auto
    have first: "revokeAge18PlusClaim t w =
           (\<lparr>rv_wallet_pubkey = w, rv_claim_type = CLAIM_TYPE,
             rv_had_proof = True, rv_revoked = True, rv_deploy_hash = deploy_hash a,
             rv_valid_from = Some (valid_from a div 1000),
             rv_valid_until = Some (valid_until a div 1000)\<rparr>, ?t1)"
      by (rule revoke_active [OF Some])
    have rows1: "rows ?t1 = map (\<lambda>x. if row_id x = row_id a then ?a' else x) (rows t)"
      by (simp add: save_loaded_def)
    have none1: "findOne_created_at_DESC ?A (rows ?t1) = None"
    proof -
      have "\<not> ?A x" if "x \<in> set (rows ?t1)" for x
      proof
        assume Ax: "?A x"
        from that obtain y where y: "y \<in> set (rows t)"
          "x = (if row_id y = row_id a then ?a' else y)" by (auto simp: rows1)
        show False
        proof (cases "row_id y = row_id a")
          case True
          with y Ax show False by simp
        next
          case False
          with y Ax have "y = a"
            using active_unique [OF inv, of y a] a by auto
          with False show False by simp
        qed
      qed
      then show ?thesis by (simp add: findOne_None_iff)
    qed
    have a'_in: "?a' \<in> set (rows ?t1)" using a(1) by (force simp: rows1)
    have ex1: "\<exists>r \<in> set (rows ?t1). of_wallet w r"
      using a'_in a by (auto simp: of_wallet_def intro!: bexI [of _ ?a'])
    have ex0: "\<exists>r \<in> set (rows t). of_wallet w r"
      using a by (auto simp: of_wallet_def)
    have second_tbl: "snd (revokeAge18PlusClaim ?t1 w) = ?t1"
      and second_hp: "rv_had_proof (fst (revokeAge18PlusClaim ?t1 w)) = True"
      and second_rv: "rv_revoked (fst (revokeAge18PlusClaim ?t1 w)) = True"
      using revoke_nothing_active [OF none1] ex1 by simp_all
    have same: "fst (revokeAge18PlusClaim ?t1 w) = fst (revokeAge18PlusClaim t w)"
      if h: "(\<forall>r \<in> set (rows t). of_wallet w r \<longrightarrow> revoked r) \<or>
             (\<exists>a. most_recent (of_wallet w) (rows t) a \<and> \<not> revoked a)"
    proof -
      from h a obtain b where b: "most_recent (of_wallet w) (rows t) b" "\<not> revoked b"
        by (auto simp: of_wallet_def)
      then have "b = a" using active_unique [OF inv, of b a] a
        by (auto simp: most_recent_def of_wallet_def)
      with b have mr: "most_recent (of_wallet w) (rows t) a" by simp
      have "most_recent (of_wallet w) (rows ?t1) ?a'"
        unfolding most_recent_def
      proof (intro conjI ballI impI)
        show "?a' \<in> set (rows ?t1)" by (rule a'_in)
        show "of_wallet w ?a'" using a by (simp add: of_wallet_def)
      next
        fix x assume x: "x \<in> set (rows ?t1)" "of_wallet w x"
        then obtain y where y: "y \<in> set (rows t)"
          "x = (if row_id y = row_id a then ?a' else y)" by (auto simp: rows1)
        show "x = ?a' \<or> created_at x < created_at ?a'"
        proof (cases "row_id y = row_id a")
          case True
          with y show ?thesis by simp
        next
          case False
          then have "y \<noteq> a" by auto
          with mr y x False show ?thesis by (auto simp: most_recent_def)
        qed
      qed
      then have "findOne_created_at_DESC (of_wallet w) (rows ?t1) = Some ?a'"
        by (rule findOne_most_recent)
      from revoke_history [OF none1 this] first show ?thesis by simp
    qed
    show ?thesis
      using first second_tbl second_hp second_rv same ex0
      by (simp add: case_prod_beta save_loaded_def)
  qed
qed

section \<open>The age computation\<close>

text \<open>
  Claim C9. For every birthdate and reference date, \<open>computeAge\<close> returns the difference
  of the years, less one exactly when the reference (month, day) comes before the birth
  (month, day) in lexicographic order, where the reference month is the calendar month
  \<open>getMonth() + 1\<close>; \<open>isMajor\<close> is \<open>age \<ge> 18\<close>. The result is a function of the two
  arguments alone.
\<close>

theorem computeAge_spec:
  "ac_age (computeAge b r) =
     getFullYear r - year b
       - (if (getMonth r + 1, getDate r) < (month b, day b) then 1 else 0)
   \<and> ac_isMajor (computeAge b r) = (18 \<le> ac_age (computeAge b r))"
  by (auto simp add: computeAge_def Let_def less_prod_def)

section \<open>At most one active row\<close>






section \<open>Status\<close>

text \<open>
  Claim C7. \<open>getAge18PlusStatus\<close> resolves as follows. If \<open>a\<close> is the most recent
  non-revoked row with \<open>is_major = true\<close> of the wallet and \<open>now\<close> lies in
  \<open>[valid_from a, valid_until a]\<close>, the answer is \<open>has_proof = true\<close>, \<open>is_major = true\<close>,
  \<open>revoked = false\<close> with the window of \<open>a\<close> in seconds and its deploy hash. Otherwise
  (no such row, or \<open>now\<close> outside its window): with no row of the wallet at all the answer
  is \<open>has_proof = false\<close>; and if \<open>l\<close> is the most recent row of the wallet, of any
  state, the answer is \<open>has_proof = true\<close>, \<open>is_major = false\<close> with the revoked flag,
  window and deploy hash of \<open>l\<close>, whatever \<open>is_major l\<close> is.
\<close>

theorem getAge18PlusStatus_resolution:
  "(most_recent (\<lambda>r. of_wallet w r \<and> \<not> revoked r \<and> is_major r) (rows t) a \<and>
      valid_from a \<le> now \<and> now \<le> valid_until a \<longrightarrow>
      getAge18PlusStatus t w now =
        \<lparr>st_wallet_pubkey = w, st_has_proof = True, st_is_major = True, st_revoked = False,
         st_valid_from = Some (valid_from a div 1000),
         st_valid_until = Some (valid_until a div 1000),
         st_deploy_hash = deploy_hash a\<rparr>)
   \<and> ((\<forall>r \<in> set (rows t). \<not> (of_wallet w r \<and> \<not> revoked r \<and> is_major r)) \<or>
       (most_recent (\<lambda>r. of_wallet w r \<and> \<not> revoked r \<and> is_major r) (rows t) a \<and>
        \<not> (valid_from a \<le> now \<and> now \<le> valid_until a)) \<longrightarrow>
       ((\<forall>r \<in> set (rows t). \<not> of_wallet w r) \<longrightarrow>
          getAge18PlusStatus t w now =
            \<lparr>st_wallet_pubkey = w, st_has_proof = False, st_is_major = False,
             st_revoked = False, st_valid_from = None, st_valid_until = None,
             st_deploy_hash = None\<rparr>)
     \<and> (most_recent (of_wallet w) (rows t) l \<longrightarrow>
          getAge18PlusStatus t w now =
            \<lparr>st_wallet_pubkey = w, st_has_proof = True, st_is_major = False,
             st_revoked = revoked l,
             st_valid_from = Some (valid_from l div 1000),
             st_valid_until = Some (valid_until l div 1000),
             st_deploy_hash = deploy_hash l\<rparr>))"
proof (intro conjI impI)
  assume "most_recent (\<lambda>r. of_wallet w r \<and> \<not> revoked r \<and> is_major r) (rows t) a \<and>
      valid_from a \<le> now \<and> now \<le> valid_until a"
  then show "getAge18PlusStatus t w now =
        \<lparr>st_wallet_pubkey = w, st_has_proof = True, st_is_major = True, st_revoked = False,
         st_valid_from = Some (valid_from a div 1000),
         st_valid_until = Some (valid_until a div 1000),
         st_deploy_hash = deploy_hash a\<rparr>"
    using status_when_active_valid by blast
next
  assume h: "(\<forall>r \<in> set (rows t). \<not> (of_wallet w r \<and> \<not> revoked r \<and> is_major r)) \<or>
       (most_recent (\<lambda>r. of_wallet w r \<and> \<not> revoked r \<and> is_major r) (rows t) a \<and>
        \<not> (valid_from a \<le> now \<and> now \<le> valid_until a))"
    and none: "\<forall>r \<in> set (rows t). \<not> of_wallet w r"
  from none have "findOne_created_at_DESC (of_wallet w) (rows t) = None"
    by (simp add: findOne_None_iff)
  with status_when_no_active_valid [OF h]
  show "getAge18PlusStatus t w now =
            \<lparr>st_wallet_pubkey = w, st_has_proof = False, st_is_major = False,
             st_revoked = False, st_valid_from = None, st_valid_until = None,
             st_deploy_hash = None\<rparr>" by simp
next
  assume h: "(\<forall>r \<in> set (rows t). \<not> (of_wallet w r \<and> \<not> revoked r \<and> is_major r)) \<or>
       (most_recent (\<lambda>r. of_wallet w r \<and> \<not> revoked r \<and> is_major r) (rows t) a \<and>
        \<not> (valid_from a \<le> now \<and> now \<le> valid_until a))"
    and l: "most_recent (of_wallet w) (rows t) l"
  from findOne_most_recent [OF l] status_when_no_active_valid [OF h]
  show "getAge18PlusStatus t w now =
            \<lparr>st_wallet_pubkey = w, st_has_proof = True, st_is_major = False,
             st_revoked = revoked l,
             st_valid_from = Some (valid_from l div 1000),
             st_valid_until = Some (valid_until l div 1000),
             st_deploy_hash = deploy_hash l\<rparr>" by simp
qed


theorem getAge18PlusStatus_resolution_witness:
  "getAge18PlusStatus table_major ''01aa'' 1717200000000 =
     \<lparr>st_wallet_pubkey = ''01aa'', st_has_proof = True, st_is_major = True, st_revoked = False,
      st_valid_from = Some 1717200000, st_valid_until = Some 1780272000, st_deploy_hash = None\<rparr>
   \<and> getAge18PlusStatus table_major ''01aa'' 1780272000001 =
     \<lparr>st_wallet_pubkey = ''01aa'', st_has_proof = True, st_is_major = False, st_revoked = False,
      st_valid_from = Some 1717200000, st_valid_until = Some 1780272000, st_deploy_hash = None\<rparr>
   \<and> getAge18PlusStatus empty_table ''01aa'' 1717200000000 =
     \<lparr>st_wallet_pubkey = ''01aa'', st_has_proof = False, st_is_major = False, st_revoked = False,
      st_valid_from = None, st_valid_until = None, st_deploy_hash = None\<rparr>"
proof -
  have rows: "rows table_major = [row_major]" by (simp add: table_major_def)
  have w: "valid_from row_major = 1717200000000" "valid_until row_major = 1780272000000"
    "deploy_hash row_major = None" "revoked row_major = False"
    by (simp_all add: row_major_def)
  from getAge18PlusStatus_resolution
    [of "''01aa''" table_major row_major 1717200000000 row_major]
    row_major_most_recent_active
  have 1: "getAge18PlusStatus table_major ''01aa'' 1717200000000 =
     \<lparr>st_wallet_pubkey = ''01aa'', st_has_proof = True, st_is_major = True, st_revoked = False,
      st_valid_from = Some 1717200000, st_valid_until = Some 1780272000, st_deploy_hash = None\<rparr>"
    by (simp add: rows w)
  from getAge18PlusStatus_resolution
    [of "''01aa''" table_major row_major 1780272000001 row_major]
    row_major_most_recent_active row_major_most_recent
  have 2: "getAge18PlusStatus table_major ''01aa'' 1780272000001 =
     \<lparr>st_wallet_pubkey = ''01aa'', st_has_proof = True, st_is_major = False, st_revoked = False,
      st_valid_from = Some 1717200000, st_valid_until = Some 1780272000, st_deploy_hash = None\<rparr>"
    by (simp add: rows w)
  from getAge18PlusStatus_resolution
    [of "''01aa''" empty_table row_major 1717200000000 row_major]
  have 3: "getAge18PlusStatus empty_table ''01aa'' 1717200000000 =
     \<lparr>st_wallet_pubkey = ''01aa'', st_has_proof = False, st_is_major = False, st_revoked = False,
      st_valid_from = None, st_valid_until = None, st_deploy_hash = None\<rparr>"
    by (simp add: empty_table_def)
  from 1 2 3 show ?thesis by simp
qed

section \<open>A creation for a minor\<close>

text \<open>
  Claim C2. When the birthdate computes to minor, \<open>createAge18PlusClaimIfMajor\<close> returns
  \<open>isMajor = false\<close>, \<open>claimCreated = false\<close>, and the new table is the old one with one
  row appended, which has \<open>revoked = true\<close>, \<open>is_major = false\<close> and no deploy hash: every
  existing row is unchanged. If \<open>a\<close> was the wallet's most recent non-revoked majority
  row, a status query on the new table at any \<open>now\<close> within the window of \<open>a\<close> still
  answers \<open>is_major = true\<close> with that window; and for any wallet, a status that was
  \<open>is_major = true\<close> before is returned unchanged afterwards.
\<close>

theorem minor_create_keeps_majority_claim:
  "\<not> ac_isMajor (computeAge b ageNow) \<Longrightarrow>
     (case createAge18PlusClaimIfMajor rt t w b vy sid paramsNow ageNow ins of
        (res, t') \<Rightarrow>
          isMajor res = False \<and> claimCreated res = False \<and> deployHash res = None
        \<and> (\<exists>r. rows t' = rows t @ [r] \<and> wallet_pubkey r = w \<and> revoked r = True \<and>
                is_major r = False \<and> deploy_hash r = None)
        \<and> (\<forall>a now.
              most_recent (\<lambda>r. of_wallet w r \<and> \<not> revoked r \<and> is_major r) (rows t) a \<and>
              valid_from a \<le> now \<and> now \<le> valid_until a \<longrightarrow>
              getAge18PlusStatus t' w now =
                \<lparr>st_wallet_pubkey = w, st_has_proof = True, st_is_major = True,
                 st_revoked = False,
                 st_valid_from = Some (valid_from a div 1000),
                 st_valid_until = Some (valid_until a div 1000),
                 st_deploy_hash = deploy_hash a\<rparr>)
        \<and> (\<forall>w' now.
              st_is_major (getAge18PlusStatus t w' now) \<longrightarrow>
              getAge18PlusStatus t' w' now = getAge18PlusStatus t w' now))"
proof -
  assume minor: "\<not> ac_isMajor (computeAge b ageNow)"
  let ?c = "createAge18PlusClaimIfMajor rt t w b vy sid paramsNow ageNow ins"
  let ?r = "\<lparr>row_id = id_seq t, session_id = sid, wallet_pubkey = w,
          user_hash = computeUserHash rt w, claim_type = CLAIM_TYPE,
          age = ac_age (computeAge b ageNow), is_major = False,
          valid_from = (getTime paramsNow div 1000) * 1000,
          valid_until =
            (getTime (setFullYear rt paramsNow (getFullYear paramsNow + vy)) div 1000) * 1000,
          revoked = True, deploy_hash = None, created_at = ins\<rparr>"
  have tbl: "snd ?c = \<lparr>rows = rows t @ [?r], id_seq = Suc (id_seq t)\<rparr>"
    using minor by (simp add: create_minor_table save_new_def)
  have rows': "rows (snd ?c) = rows t @ [?r]" by (simp add: tbl)
  have res: "isMajor (fst ?c) = False \<and> claimCreated (fst ?c) = False \<and> deployHash (fst ?c) = None"
    using minor by (rule create_minor_result)
  have ex: "\<exists>r. rows (snd ?c) = rows t @ [r] \<and> wallet_pubkey r = w \<and> revoked r = True \<and>
                is_major r = False \<and> deploy_hash r = None"
    using rows' by simp
  have keep: "getAge18PlusStatus (snd ?c) w now =
                \<lparr>st_wallet_pubkey = w, st_has_proof = True, st_is_major = True,
                 st_revoked = False,
                 st_valid_from = Some (valid_from a div 1000),
                 st_valid_until = Some (valid_until a div 1000),
                 st_deploy_hash = deploy_hash a\<rparr>"
    if h: "most_recent (\<lambda>r. of_wallet w r \<and> \<not> revoked r \<and> is_major r) (rows t) a \<and>
              valid_from a \<le> now \<and> now \<le> valid_until a" for a now
  proof -
    from h have "most_recent (\<lambda>r. of_wallet w r \<and> \<not> revoked r \<and> is_major r) (rows (snd ?c)) a"
      by (auto simp: most_recent_def rows')
    with h show ?thesis using status_when_active_valid by blast
  qed
  have same: "getAge18PlusStatus (snd ?c) w' now = getAge18PlusStatus t w' now"
    if "st_is_major (getAge18PlusStatus t w' now)" for w' now
  proof -
    have "snd ?c = t\<lparr>rows := rows t @ [?r], id_seq := Suc (id_seq t)\<rparr>"
      by (simp add: tbl)
    then show ?thesis using status_append_revoked [of ?r t w' now "Suc (id_seq t)"] that
      by simp
  qed
  show ?thesis using res ex keep same by (simp add: case_prod_beta)
qed


theorem minor_create_keeps_majority_claim_witness:
  "\<not> ac_isMajor (computeAge born_2010_01_01 date_2024_07_01)
   \<and> most_recent (\<lambda>r. of_wallet ''01aa'' r \<and> \<not> revoked r \<and> is_major r) (rows table_major) row_major
   \<and> snd (createAge18PlusClaimIfMajor sample_runtime table_major ''01aa'' born_2010_01_01 2 None
            date_2024_07_01 date_2024_07_01 1719792000000) = table_major_minor
   \<and> getAge18PlusStatus table_major_minor ''01aa'' 1719792000000 =
     \<lparr>st_wallet_pubkey = ''01aa'', st_has_proof = True, st_is_major = True, st_revoked = False,
      st_valid_from = Some 1717200000, st_valid_until = Some 1780272000, st_deploy_hash = None\<rparr>"
proof -
  have rows: "rows table_major = [row_major]" by (simp add: table_major_def)
  have w: "valid_from row_major = 1717200000000" "valid_until row_major = 1780272000000"
    "deploy_hash row_major = None"
    by (simp_all add: row_major_def)
  from minor_create_keeps_majority_claim
    [where b = born_2010_01_01 and ageNow = date_2024_07_01 and rt = sample_runtime
       and t = table_major and w = "''01aa''" and vy = 2 and sid = None
       and paramsNow = date_2024_07_01 and ins = 1719792000000, OF minor_2010]
  have "\<forall>a now.
          most_recent (\<lambda>r. of_wallet ''01aa'' r \<and> \<not> revoked r \<and> is_major r) (rows table_major) a \<and>
          valid_from a \<le> now \<and> now \<le> valid_until a \<longrightarrow>
          getAge18PlusStatus table_major_minor ''01aa'' now =
            \<lparr>st_wallet_pubkey = ''01aa'', st_has_proof = True, st_is_major = True,
             st_revoked = False,
             st_valid_from = Some (valid_from a div 1000),
             st_valid_until = Some (valid_until a div 1000),
             st_deploy_hash = deploy_hash a\<rparr>"
    by (simp add: table_major_minor_created)
  from this [rule_format, of row_major 1719792000000] row_major_most_recent_active
  have "getAge18PlusStatus table_major_minor ''01aa'' 1719792000000 =
     \<lparr>st_wallet_pubkey = ''01aa'', st_has_proof = True, st_is_major = True, st_revoked = False,
      st_valid_from = Some 1717200000, st_valid_until = Some 1780272000, st_deploy_hash = None\<rparr>"
    by (simp add: rows w)
  with minor_2010 row_major_most_recent_active show ?thesis
    by (simp add: rows table_major_minor_created)
qed

section \<open>Revoking twice\<close>

text \<open>
  Claim C8, as amended. In a table with at most one active row for the wallet, two
  revocations in succession behave as follows. The second one changes nothing and no
  call adds a row. Both calls return the same \<open>had_proof\<close> and the same \<open>revoked\<close>, and
  both flags are true exactly when the wallet has a row. For a wallet without any row
  the first call changes nothing either, and both calls return \<open>had_proof = false\<close>,
  \<open>revoked = false\<close>, no deploy hash and no window. The two results are equal in every
  field when nothing was active before the first call, or when the row that the first
  call revokes is the wallet's most recent row; in that case the first call reports the
  window and the deploy hash of that row.
\<close>

theorem revoke_twice:
  "active_count t w CLAIM_TYPE \<le> 1 \<Longrightarrow>
     (case revokeAge18PlusClaim t w of
        (r1, t1) \<Rightarrow>
          (case revokeAge18PlusClaim t1 w of
             (r2, t2) \<Rightarrow>
               t2 = t1 \<and> length (rows t1) = length (rows t)
             \<and> rv_had_proof r1 = (\<exists>r \<in> set (rows t). of_wallet w r)
             \<and> rv_revoked r1 = (\<exists>r \<in> set (rows t). of_wallet w r)
             \<and> rv_had_proof r2 = rv_had_proof r1
             \<and> rv_revoked r2 = rv_revoked r1
             \<and> ((\<forall>r \<in> set (rows t). of_wallet w r \<longrightarrow> revoked r) \<or>
                 (\<exists>a. most_recent (of_wallet w) (rows t) a \<and> \<not> revoked a) \<longrightarrow> r2 = r1)
             \<and> ((\<forall>r \<in> set (rows t). \<not> of_wallet w r) \<longrightarrow>
                  t1 = t \<and>
                  r1 = \<lparr>rv_wallet_pubkey = w, rv_claim_type = CLAIM_TYPE, rv_had_proof = False,
                        rv_revoked = False, rv_deploy_hash = None, rv_valid_from = None,
                        rv_valid_until = None\<rparr> \<and>
                  r2 = \<lparr>rv_wallet_pubkey = w, rv_claim_type = CLAIM_TYPE, rv_had_proof = False,
                        rv_revoked = False, rv_deploy_hash = None, rv_valid_from = None,
                        rv_valid_until = None\<rparr>)
             \<and> (\<forall>a. most_recent (of_wallet w) (rows t) a \<and> \<not> revoked a \<longrightarrow>
                  r1 = \<lparr>rv_wallet_pubkey = w, rv_claim_type = CLAIM_TYPE, rv_had_proof = True,
                        rv_revoked = True, rv_deploy_hash = deploy_hash a,
                        rv_valid_from = Some (valid_from a div 1000),
                        rv_valid_until = Some (valid_until a div 1000)\<rparr>)))"
proof -
  assume inv: "active_count t w CLAIM_TYPE \<le> 1"
  have base: "(case revokeAge18PlusClaim t w of
        (r1, t1) \<Rightarrow>
          (case revokeAge18PlusClaim t1 w of
             (r2, t2) \<Rightarrow>
               t2 = t1 \<and> length (rows t1) = length (rows t)
             \<and> rv_had_proof r1 = (\<exists>r \<in> set (rows t). of_wallet w r)
             \<and> rv_revoked r1 = (\<exists>r \<in> set (rows t). of_wallet w r)
             \<and> rv_had_proof r2 = rv_had_proof r1
             \<and> rv_revoked r2 = rv_revoked r1
             \<and> ((\<forall>r \<in> set (rows t). of_wallet w r \<longrightarrow> revoked r) \<or>
                 (\<exists>a. most_recent (of_wallet w) (rows t) a \<and> \<not> revoked a) \<longrightarrow> r2 = r1)))"
    using inv by (rule revoke_twice_flags)
  have ow: "of_wallet w = (\<lambda>r. wallet_pubkey r = w \<and> claim_type r = CLAIM_TYPE)"
    by (rule ext) (simp add: of_wallet_def)
  have none: "revokeAge18PlusClaim t w =
      (\<lparr>rv_wallet_pubkey = w, rv_claim_type = CLAIM_TYPE, rv_had_proof = False,
        rv_revoked = False, rv_deploy_hash = None, rv_valid_from = None,
        rv_valid_until = None\<rparr>, t)"
    if h: "\<forall>r \<in> set (rows t). \<not> of_wallet w r"
  proof -
    from h have 1: "findOne_created_at_DESC (of_wallet w) (rows t) = None"
      by (simp add: findOne_None_iff)
    from h have 2: "findOne_created_at_DESC
             (\<lambda>r. wallet_pubkey r = w \<and> claim_type r = CLAIM_TYPE \<and> revoked r = False) (rows t) = None"
      by (auto simp add: findOne_None_iff of_wallet_def)
    from 1 2 show ?thesis by (simp add: revokeAge18PlusClaim_def ow)
  qed
  have act: "revokeAge18PlusClaim t w =
      (\<lparr>rv_wallet_pubkey = w, rv_claim_type = CLAIM_TYPE, rv_had_proof = True,
        rv_revoked = True, rv_deploy_hash = deploy_hash a,
        rv_valid_from = Some (valid_from a div 1000),
        rv_valid_until = Some (valid_until a div 1000)\<rparr>,
       save_loaded t (a\<lparr>revoked := True\<rparr>))"
    if h: "most_recent (of_wallet w) (rows t) a \<and> \<not> revoked a" for a
  proof -
    from h have "most_recent
        (\<lambda>r. wallet_pubkey r = w \<and> claim_type r = CLAIM_TYPE \<and> revoked r = False) (rows t) a"
      by (auto simp: most_recent_def of_wallet_def)
    then have "findOne_created_at_DESC
        (\<lambda>r. wallet_pubkey r = w \<and> claim_type r = CLAIM_TYPE \<and> revoked r = False) (rows t) = Some a"
      by (rule findOne_most_recent)
    then show ?thesis by (rule revoke_active)
  qed
  show ?thesis
    using base none act by (auto simp add: case_prod_beta)
qed

theorem revoke_twice_witness:
  "active_count table_major ''01aa'' CLAIM_TYPE \<le> 1
   \<and> most_recent (of_wallet ''01aa'') (rows table_major) row_major
   \<and> \<not> revoked row_major
   \<and> revokeAge18PlusClaim (snd (revokeAge18PlusClaim table_major ''01aa'')) ''01aa'' =
       (fst (revokeAge18PlusClaim table_major ''01aa''),
        snd (revokeAge18PlusClaim table_major ''01aa''))
   \<and> rv_revoked (fst (revokeAge18PlusClaim table_major ''01aa'')) = True"
proof -
  have inv: "active_count table_major ''01aa'' CLAIM_TYPE \<le> 1"
    by (simp add: active_count_def sample_defs CLAIM_TYPE_def)
  have mr: "most_recent (of_wallet ''01aa'') (rows table_major) row_major"
    using row_major_most_recent by (simp add: table_major_def)
  have nr: "\<not> revoked row_major" by (simp add: row_major_def)
  have ex: "\<exists>a. most_recent (of_wallet ''01aa'') (rows table_major) a \<and> \<not> revoked a"
    using mr nr by blast
  have hp: "\<exists>r \<in> set (rows table_major). of_wallet ''01aa'' r"
    using mr by (auto simp: most_recent_def)
  from revoke_twice [OF inv] ex hp
  have "revokeAge18PlusClaim (snd (revokeAge18PlusClaim table_major ''01aa'')) ''01aa'' =
       (fst (revokeAge18PlusClaim table_major ''01aa''),
        snd (revokeAge18PlusClaim table_major ''01aa''))
     \<and> rv_revoked (fst (revokeAge18PlusClaim table_major ''01aa'')) = True"
    by (auto simp add: case_prod_beta prod_eq_iff)
  with inv mr nr show ?thesis by simp
qed

text \<open>
  The claim as first stated fails in two ways. For a wallet without rows both calls
  return \<open>revoked = false\<close>. And in the table reached by a creation for an adult followed
  by a creation for a minor, the first revocation reports the window of the revoked
  row, the second the window of the later audit row.
\<close>

theorem revoke_twice_counterexample:
  "rv_revoked (fst (revokeAge18PlusClaim empty_table ''01aa'')) = False
   \<and> rv_revoked (fst (revokeAge18PlusClaim (snd (revokeAge18PlusClaim empty_table ''01aa''))
                        ''01aa'')) = False
   \<and> reachable_serial sample_runtime table_major_minor
   \<and> rv_valid_from (fst (revokeAge18PlusClaim table_major_minor ''01aa'')) = Some 1717200000
   \<and> rv_valid_from (fst (revokeAge18PlusClaim (snd (revokeAge18PlusClaim table_major_minor ''01aa''))
                           ''01aa'')) = Some 1719792000"
  using reachable_table_major_minor
  by (simp add: service_defs sample_defs)

section \<open>Ledger anchoring and the local row\<close>




section \<open>A challenge is consumed once\<close>

text \<open>
  Claim C4. When a verification succeeds, the challenge is removed from the store before
  the token is issued. A second verification with the same challenge id then fails with
  \<open>Unknown or expired challenge_id\<close> and leaves the store unchanged, whatever the
  signature, the time and the libraries are: for every request that reaches the lookup,
  that is, whose wallet key passes the format check, and so for the replayed request and
  for any request of the same wallet. No second request with that id returns a token.
\<close>

theorem consume_exactly_once:
  "verifySignatureAndIssueToken cr chs body now = (Inr resp, chs') \<Longrightarrow>
   trim (rq_challenge_id body2) = trim (rq_challenge_id body) \<Longrightarrow>
     chs' (trim (rq_challenge_id body)) = None
   \<and> (assertPubkeyFormat (trim (rq_wallet_pubkey body2)) = None \<longrightarrow>
        verifySignatureAndIssueToken cr2 chs' body2 now2 =
          (Inl (UnauthorizedException Unknown_or_expired_challenge_id), chs'))
   \<and> (trim (rq_wallet_pubkey body2) = trim (rq_wallet_pubkey body) \<longrightarrow>
        verifySignatureAndIssueToken cr2 chs' body2 now2 =
          (Inl (UnauthorizedException Unknown_or_expired_challenge_id), chs'))
   \<and> (\<forall>resp2. fst (verifySignatureAndIssueToken cr2 chs' body2 now2) \<noteq> Inr resp2)"
proof -
  assume first: "verifySignatureAndIssueToken cr chs body now = (Inr resp, chs')"
    and same: "trim (rq_challenge_id body2) = trim (rq_challenge_id body)"
  from verify_success_consumes [OF first]
  have gone: "chs' (trim (rq_challenge_id body)) = None" by simp
  with same have "chs' (trim (rq_challenge_id body2)) = None" by simp
  then have second: "verifySignatureAndIssueToken cr2 chs' body2 now2 =
       (case assertPubkeyFormat (trim (rq_wallet_pubkey body2)) of
          None \<Rightarrow> (Inl (UnauthorizedException Unknown_or_expired_challenge_id), chs')
        | Some e \<Rightarrow> (Inl e, chs'))"
    by (rule verify_unknown_id)
  have wf: "assertPubkeyFormat (trim (rq_wallet_pubkey body)) = None"
    using first by (rule verify_success_wellformed)
  have a: "assertPubkeyFormat (trim (rq_wallet_pubkey body2)) = None \<longrightarrow>
        verifySignatureAndIssueToken cr2 chs' body2 now2 =
          (Inl (UnauthorizedException Unknown_or_expired_challenge_id), chs')"
    by (simp add: second)
  have b: "trim (rq_wallet_pubkey body2) = trim (rq_wallet_pubkey body) \<longrightarrow>
        verifySignatureAndIssueToken cr2 chs' body2 now2 =
          (Inl (UnauthorizedException Unknown_or_expired_challenge_id), chs')"
    using wf by (simp add: second)
  have c: "\<forall>resp2. fst (verifySignatureAndIssueToken cr2 chs' body2 now2) \<noteq> Inr resp2"
    by (simp add: second split: option.splits)
  from gone a b c show ?thesis by blast
qed

theorem consume_exactly_once_witness:
  "verifySignatureAndIssueToken sample_crypto sample_challenges sample_request 2000 =
     (Inr \<lparr>vr_ok = True, vr_wallet_pubkey = sample_wallet, vr_token = ''jwt'',
           vr_expires_in_seconds = 300\<rparr>,
      sample_challenges(''c0ffee'' := None))
   \<and> verifySignatureAndIssueToken sample_crypto (sample_challenges(''c0ffee'' := None))
         sample_request 3000 =
       (Inl (UnauthorizedException Unknown_or_expired_challenge_id),
        sample_challenges(''c0ffee'' := None))"
proof -
  from consume_exactly_once [OF verify_sample, of sample_request sample_crypto 3000]
  have "verifySignatureAndIssueToken sample_crypto (sample_challenges(''c0ffee'' := None))
            sample_request 3000 =
          (Inl (UnauthorizedException Unknown_or_expired_challenge_id),
           sample_challenges(''c0ffee'' := None))"
    by simp
  with verify_sample show ?thesis by simp
qed

section \<open>The order of the failures of a verification\<close>

text \<open>
  Claim C5. With \<open>w\<close> the trimmed wallet key and \<open>cid\<close> the trimmed challenge id of a
  request that reaches the lookup (its key passes the format check),
  \<open>verifySignatureAndIssueToken\<close> fails in this order: with
  \<open>Unknown or expired challenge_id\<close> when no challenge is stored under \<open>cid\<close>; with
  \<open>Challenge does not match wallet_pubkey\<close> when the stored wallet differs from \<open>w\<close>;
  then, when the time to live has elapsed, with \<open>Challenge expired\<close>, removing the
  entry, whatever the signature and the libraries are; and only otherwise is the
  signature checked, the outcome being the error of the check, \<open>Invalid signature\<close>, or
  the consumption of the challenge and the token. Every wallet that \<open>createChallenge\<close>
  stores passes the format check, so a stored challenge whose time to live has elapsed is
  answered with \<open>Challenge expired\<close> and removed when its own wallet asks.
\<close>

theorem verify_failure_order:
  "w = trim (rq_wallet_pubkey body) \<Longrightarrow> cid = trim (rq_challenge_id body) \<Longrightarrow>
     (assertPubkeyFormat w = None \<and> chs cid = None \<longrightarrow>
        verifySignatureAndIssueToken cr chs body now =
          (Inl (UnauthorizedException Unknown_or_expired_challenge_id), chs))
   \<and> (\<forall>stored. assertPubkeyFormat w = None \<and> chs cid = Some stored \<and> walletPubkey stored \<noteq> w \<longrightarrow>
        verifySignatureAndIssueToken cr chs body now =
          (Inl (UnauthorizedException Challenge_does_not_match_wallet_pubkey), chs))
   \<and> (\<forall>stored. assertPubkeyFormat w = None \<and> chs cid = Some stored \<and> walletPubkey stored = w \<and>
          expiresAtMs stored < now \<longrightarrow>
        verifySignatureAndIssueToken cr chs body now =
          (Inl (UnauthorizedException Challenge_expired), chs(cid := None)))
   \<and> (\<forall>stored. assertPubkeyFormat w = None \<and> chs cid = Some stored \<and> walletPubkey stored = w \<and>
          now \<le> expiresAtMs stored \<longrightarrow>
        (case verifyCasperSignature cr w (messageToSign stored) (trim (rq_signature_hex body)) of
           Inl e \<Rightarrow> verifySignatureAndIssueToken cr chs body now = (Inl e, chs)
         | Inr ok \<Rightarrow>
             if ok then
               verifySignatureAndIssueToken cr chs body now =
                 (case signAsync cr w [''proof:create'', ''proof:revoke'']
                         JWT_EXPIRES_IN_SECONDS of
                    None \<Rightarrow> (Inl SignError, chs(cid := None))
                  | Some token \<Rightarrow>
                      (Inr \<lparr>vr_ok = True, vr_wallet_pubkey = w, vr_token = token,
                            vr_expires_in_seconds = JWT_EXPIRES_IN_SECONDS\<rparr>,
                       chs(cid := None)))
             else verifySignatureAndIssueToken cr chs body now =
                    (Inl (UnauthorizedException Invalid_signature), chs)))
   \<and> (\<forall>stored. chs cid = Some stored \<and> walletPubkey stored = w \<and>
          assertPubkeyFormat (walletPubkey stored) = None \<and> expiresAtMs stored < now \<longrightarrow>
        verifySignatureAndIssueToken cr chs body now =
          (Inl (UnauthorizedException Challenge_expired), chs(cid := None)))
   \<and> (\<forall>dto chs1. createChallenge env chs0 raw = (Inr dto, chs1) \<longrightarrow>
        (\<exists>stored. chs1 (ch_challenge_id dto) = Some stored \<and>
           walletPubkey stored = ch_wallet_pubkey dto \<and>
           assertPubkeyFormat (walletPubkey stored) = None))"
proof -
  assume w: "w = trim (rq_wallet_pubkey body)" and cid: "cid = trim (rq_challenge_id body)"
  have order: "(assertPubkeyFormat w = None \<and> chs cid = None \<longrightarrow>
        verifySignatureAndIssueToken cr chs body now =
          (Inl (UnauthorizedException Unknown_or_expired_challenge_id), chs))
   \<and> (\<forall>stored. assertPubkeyFormat w = None \<and> chs cid = Some stored \<and> walletPubkey stored \<noteq> w \<longrightarrow>
        verifySignatureAndIssueToken cr chs body now =
          (Inl (UnauthorizedException Challenge_does_not_match_wallet_pubkey), chs))
   \<and> (\<forall>stored. assertPubkeyFormat w = None \<and> chs cid = Some stored \<and> walletPubkey stored = w \<and>
          expiresAtMs stored < now \<longrightarrow>
        verifySignatureAndIssueToken cr chs body now =
          (Inl (UnauthorizedException Challenge_expired), chs(cid := None)))
   \<and> (\<forall>stored. assertPubkeyFormat w = None \<and> chs cid = Some stored \<and> walletPubkey stored = w \<and>
          now \<le> expiresAtMs stored \<longrightarrow>
        (case verifyCasperSignature cr w (messageToSign stored) (trim (rq_signature_hex body)) of
           Inl e \<Rightarrow> verifySignatureAndIssueToken cr chs body now = (Inl e, chs)
         | Inr ok \<Rightarrow>
             if ok then
               verifySignatureAndIssueToken cr chs body now =
                 (case signAsync cr w [''proof:create'', ''proof:revoke'']
                         JWT_EXPIRES_IN_SECONDS of
                    None \<Rightarrow> (Inl SignError, chs(cid := None))
                  | Some token \<Rightarrow>
                      (Inr \<lparr>vr_ok = True, vr_wallet_pubkey = w, vr_token = token,
                            vr_expires_in_seconds = JWT_EXPIRES_IN_SECONDS\<rparr>,
                       chs(cid := None)))
             else verifySignatureAndIssueToken cr chs body now =
                    (Inl (UnauthorizedException Invalid_signature), chs)))"
    using w cid
    by (auto simp: verifySignatureAndIssueToken_def Let_def split: option.splits sum.splits)
  have stored_expired: "\<forall>stored. chs cid = Some stored \<and> walletPubkey stored = w \<and>
          assertPubkeyFormat (walletPubkey stored) = None \<and> expiresAtMs stored < now \<longrightarrow>
        verifySignatureAndIssueToken cr chs body now =
          (Inl (UnauthorizedException Challenge_expired), chs(cid := None))"
    using order by auto
  have issued: "\<forall>dto chs1. createChallenge env chs0 raw = (Inr dto, chs1) \<longrightarrow>
        (\<exists>stored. chs1 (ch_challenge_id dto) = Some stored \<and>
           walletPubkey stored = ch_wallet_pubkey dto \<and>
           assertPubkeyFormat (walletPubkey stored) = None)"
    using createChallenge_stores_wellformed by blast
  from order stored_expired issued show ?thesis by blast
qed

theorem verify_failure_order_witness:
  "assertPubkeyFormat (trim (rq_wallet_pubkey sample_request)) = None
   \<and> sample_challenges (trim (rq_challenge_id sample_request)) = Some sample_stored
   \<and> walletPubkey sample_stored = trim (rq_wallet_pubkey sample_request)
   \<and> expiresAtMs sample_stored < 301001
   \<and> verifyCasperSignature sample_crypto sample_wallet (messageToSign sample_stored)
        sample_signature = Inr True
   \<and> verifySignatureAndIssueToken sample_crypto sample_challenges sample_request 301001 =
       (Inl (UnauthorizedException Challenge_expired), sample_challenges(''c0ffee'' := None))"
proof -
  have w: "sample_wallet = trim (rq_wallet_pubkey sample_request)"
    and c: "''c0ffee'' = trim (rq_challenge_id sample_request)"
    by (simp_all add: sample_request_def trim_sample_wallet trim_c0ffee)
  have h: "assertPubkeyFormat sample_wallet = None"
    "sample_challenges ''c0ffee'' = Some sample_stored"
    "walletPubkey sample_stored = sample_wallet"
    "expiresAtMs sample_stored < 301001"
    by (simp_all add: assert_sample_wallet sample_challenges_def sample_stored_def)
  from verify_failure_order [OF w c, where cr = sample_crypto and chs = sample_challenges
      and now = 301001 and env = sample_env and chs0 = Map.empty and raw = sample_wallet] h
  have "verifySignatureAndIssueToken sample_crypto sample_challenges sample_request 301001 =
       (Inl (UnauthorizedException Challenge_expired), sample_challenges(''c0ffee'' := None))"
    by simp
  with h w c verifyCasper_sample show ?thesis by simp
qed

section \<open>Signature bytes\<close>

text \<open>
  Claim C6, as amended. Let \<open>bytes\<close> be the bytes of the signature hex (lower-cased, a
  prefix \<open>0x\<close> removed). For Ed25519, 64 bytes are used as they are, and of 65 bytes the
  first one is dropped: the last 64 bytes are verified. For secp256k1, 64 or 65 bytes are
  accepted; the verification uses the first 64 bytes and checks them against the SHA-256
  digest of each candidate message. Any other length is rejected for both algorithms.
\<close>

theorem signature_normalization:
  "hexToBytes (replace_0x (map toLowerCase signatureHex)) = Inr bytes \<Longrightarrow>
     (length bytes = 64 \<longrightarrow>
        normalizeSignatureBytes signatureHex Ed25519 = Inr bytes \<and>
        normalizeSignatureBytes signatureHex Secp256k1 = Inr bytes)
   \<and> (length bytes = 65 \<longrightarrow>
        normalizeSignatureBytes signatureHex Ed25519 = Inr (tl bytes) \<and>
        length (tl bytes) = 64 \<and>
        normalizeSignatureBytes signatureHex Secp256k1 = Inr bytes)
   \<and> (length bytes \<noteq> 64 \<and> length bytes \<noteq> 65 \<longrightarrow>
        normalizeSignatureBytes signatureHex Ed25519 =
          Inl (BadRequestException (Unexpected_ed25519_signature_length (length bytes))) \<and>
        normalizeSignatureBytes signatureHex Secp256k1 =
          Inl (BadRequestException (Unexpected_secp256k1_signature_length (length bytes))))
   \<and> (\<forall>pk. map toLowerCase (take 2 key) = ''01'' \<and> hexToBytes (drop 2 key) = Inr pk \<longrightarrow>
        verifyCasperSignature cr key message signatureHex =
          (if length bytes = 64 then
             Inr (list_ex (\<lambda>m. nacl_verify cr m bytes pk) (candidateMessages message))
           else if length bytes = 65 then
             Inr (list_ex (\<lambda>m. nacl_verify cr m (tl bytes) pk) (candidateMessages message))
           else Inl (BadRequestException (Unexpected_ed25519_signature_length (length bytes)))))
   \<and> (\<forall>pk. map toLowerCase (take 2 key) = ''02'' \<and> hexToBytes (drop 2 key) = Inr pk \<longrightarrow>
        verifyCasperSignature cr key message signatureHex =
          (if length bytes = 64 then
             Inr (list_ex (\<lambda>m. secp_verify cr bytes (sha256 cr m) pk) (candidateMessages message))
           else if length bytes = 65 then
             Inr (list_ex (\<lambda>m. secp_verify cr (butlast bytes) (sha256 cr m) pk)
                    (candidateMessages message))
           else Inl (BadRequestException (Unexpected_secp256k1_signature_length (length bytes)))))"
proof -
  assume b: "hexToBytes (replace_0x (map toLowerCase signatureHex)) = Inr bytes"
  note n = normalize_cases [OF b]
  have bl: "take 64 bytes = butlast bytes" if "length bytes = 65"
    using that by (simp add: butlast_conv_take)
  have tl: "drop (Suc 0) bytes = tl bytes" by (simp add: drop_Suc)
  have ed: "normalizeSignatureBytes signatureHex Ed25519 =
           (if length bytes = 64 then Inr bytes
            else if length bytes = 65 then Inr (tl bytes)
            else Inl (BadRequestException (Unexpected_ed25519_signature_length (length bytes))))"
    by (simp add: n tl)
  have 1: "length bytes = 64 \<longrightarrow>
        normalizeSignatureBytes signatureHex Ed25519 = Inr bytes \<and>
        normalizeSignatureBytes signatureHex Secp256k1 = Inr bytes"
    by (simp add: ed n)
  have 2: "length bytes = 65 \<longrightarrow>
        normalizeSignatureBytes signatureHex Ed25519 = Inr (tl bytes) \<and>
        length (tl bytes) = 64 \<and>
        normalizeSignatureBytes signatureHex Secp256k1 = Inr bytes"
    by (simp add: ed n)
  have 3: "length bytes \<noteq> 64 \<and> length bytes \<noteq> 65 \<longrightarrow>
        normalizeSignatureBytes signatureHex Ed25519 =
          Inl (BadRequestException (Unexpected_ed25519_signature_length (length bytes))) \<and>
        normalizeSignatureBytes signatureHex Secp256k1 =
          Inl (BadRequestException (Unexpected_secp256k1_signature_length (length bytes)))"
    by (simp add: ed n)
  have 4: "\<forall>pk. map toLowerCase (take 2 key) = ''01'' \<and> hexToBytes (drop 2 key) = Inr pk \<longrightarrow>
        verifyCasperSignature cr key message signatureHex =
          (if length bytes = 64 then
             Inr (list_ex (\<lambda>m. nacl_verify cr m bytes pk) (candidateMessages message))
           else if length bytes = 65 then
             Inr (list_ex (\<lambda>m. nacl_verify cr m (tl bytes) pk) (candidateMessages message))
           else Inl (BadRequestException (Unexpected_ed25519_signature_length (length bytes))))"
    by (simp add: verifyCasperSignature_def ed)
  have 5: "\<forall>pk. map toLowerCase (take 2 key) = ''02'' \<and> hexToBytes (drop 2 key) = Inr pk \<longrightarrow>
        verifyCasperSignature cr key message signatureHex =
          (if length bytes = 64 then
             Inr (list_ex (\<lambda>m. secp_verify cr bytes (sha256 cr m) pk) (candidateMessages message))
           else if length bytes = 65 then
             Inr (list_ex (\<lambda>m. secp_verify cr (butlast bytes) (sha256 cr m) pk)
                    (candidateMessages message))
           else Inl (BadRequestException (Unexpected_secp256k1_signature_length (length bytes))))"
    using bl by (simp add: verifyCasperSignature_def n)
  from 1 2 3 4 5 show ?thesis by blast
qed


theorem signature_normalization_witness:
  "hexToBytes (replace_0x (map toLowerCase signature_65_bytes)) = Inr (0xAA # bytes_64_bb)
   \<and> length (0xAA # bytes_64_bb) = 65
   \<and> normalizeSignatureBytes signature_65_bytes Ed25519 = Inr bytes_64_bb
   \<and> normalizeSignatureBytes signature_65_bytes Secp256k1 = Inr (0xAA # bytes_64_bb)"
proof -
  have h: "hexToBytes (replace_0x (map toLowerCase signature_65_bytes)) = Inr (0xAA # bytes_64_bb)"
    by (simp add: signature_65_bytes_lower hexToBytes_signature_65_bytes)
  have l: "length (0xAA # bytes_64_bb) = 65" by (simp add: bytes_64_bb_def)
  from signature_normalization [OF h] l h show ?thesis by simp
qed

text \<open>
  The claim as first stated says that for Ed25519 the 65th byte is stripped and the first
  64 bytes are verified. For the signature \<open>aa\<close> followed by 64 times \<open>bb\<close>, the
  normalised bytes are the 64 bytes \<open>bb\<close>: the list without its first byte, which is not
  the list without its last byte.
\<close>

theorem signature_normalization_counterexample:
  "hexToBytes signature_65_bytes = Inr (0xAA # bytes_64_bb)
   \<and> normalizeSignatureBytes signature_65_bytes Ed25519 = Inr (tl (0xAA # bytes_64_bb))
   \<and> tl (0xAA # bytes_64_bb) \<noteq> butlast (0xAA # bytes_64_bb)"
proof -
  have "normalizeSignatureBytes signature_65_bytes Ed25519 = Inr bytes_64_bb"
    by (simp add: normalizeSignatureBytes_def signature_65_bytes_lower
        hexToBytes_signature_65_bytes) (simp add: bytes_64_bb_def)
  moreover have "bytes_64_bb \<noteq> butlast (0xAA # bytes_64_bb)"
    by (simp add: bytes_64_bb_def)
  ultimately show ?thesis by (simp add: hexToBytes_signature_65_bytes)
qed

section \<open>A wallet key with prefix 0x\<close>

text \<open>
  Claim C10. Let \<open>k\<close> be a key that passes the format check and carries the tag \<open>01\<close>
  or \<open>02\<close>. The key \<open>0x\<close> followed by \<open>k\<close> passes the format check too, and a challenge
  is issued and stored for it under the unstripped string. The signature verification
  for this key fails with \<open>Unsupported Casper key algorithm\<close> for every message and
  every signature, since the tag is read from the first two characters of the string. So
  no verification request for this key ever returns a token, and a request for a stored,
  matching challenge that has not expired fails with that error and leaves the challenge
  in the store.
\<close>

theorem prefixed_key_never_verifies:
  "assertPubkeyFormat k = None \<Longrightarrow> map toLowerCase (take 2 k) \<in> {''01'', ''02''} \<Longrightarrow>
     assertPubkeyFormat (''0x'' @ k) = None
   \<and> (trim raw = ''0x'' @ k \<longrightarrow>
        (\<exists>dto. createChallenge env chs raw =
                 (Inr dto,
                  chs(randomHex_16 env \<mapsto>
                        \<lparr>walletPubkey = ''0x'' @ k, messageToSign = ch_message_to_sign dto,
                         expiresAtMs = stored_now env + CHALLENGE_TTL_MS\<rparr>))
               \<and> ch_wallet_pubkey dto = ''0x'' @ k))
   \<and> verifyCasperSignature cr (''0x'' @ k) message sg =
       Inl (BadRequestException Unsupported_Casper_key_algorithm)
   \<and> (trim (rq_wallet_pubkey body) = ''0x'' @ k \<longrightarrow>
        (\<forall>resp. fst (verifySignatureAndIssueToken cr chs body now) \<noteq> Inr resp))
   \<and> (\<forall>stored. trim (rq_wallet_pubkey body) = ''0x'' @ k \<and>
          chs (trim (rq_challenge_id body)) = Some stored \<and>
          walletPubkey stored = ''0x'' @ k \<and> now \<le> expiresAtMs stored \<longrightarrow>
        verifySignatureAndIssueToken cr chs body now =
          (Inl (BadRequestException Unsupported_Casper_key_algorithm), chs))"
proof -
  assume k: "assertPubkeyFormat k = None" "map toLowerCase (take 2 k) \<in> {''01'', ''02''}"
  note ok = assert_prefixed [OF k]
  have issue: "\<exists>dto. createChallenge env chs raw =
                 (Inr dto,
                  chs(randomHex_16 env \<mapsto>
                        \<lparr>walletPubkey = ''0x'' @ k, messageToSign = ch_message_to_sign dto,
                         expiresAtMs = stored_now env + CHALLENGE_TTL_MS\<rparr>))
               \<and> ch_wallet_pubkey dto = ''0x'' @ k"
    if "trim raw = ''0x'' @ k"
    using that ok by (simp add: createChallenge_def Let_def)
  have never: "fst (verifySignatureAndIssueToken cr chs body now) \<noteq> Inr resp"
    if "trim (rq_wallet_pubkey body) = ''0x'' @ k" for resp
    using that
    by (auto simp: verifySignatureAndIssueToken_def Let_def verifyCasper_prefixed
        split: option.splits)
  have live: "verifySignatureAndIssueToken cr chs body now =
          (Inl (BadRequestException Unsupported_Casper_key_algorithm), chs)"
    if "trim (rq_wallet_pubkey body) = ''0x'' @ k \<and>
          chs (trim (rq_challenge_id body)) = Some stored \<and>
          walletPubkey stored = ''0x'' @ k \<and> now \<le> expiresAtMs stored" for stored
    using that ok
    by (simp add: verifySignatureAndIssueToken_def Let_def verifyCasper_prefixed)
  have unsupported: "verifyCasperSignature cr (''0x'' @ k) message sg =
       Inl (BadRequestException Unsupported_Casper_key_algorithm)"
    by (simp add: verifyCasper_prefixed)
  show ?thesis using ok issue never live unsupported by blast
qed

theorem prefixed_key_never_verifies_witness:
  "assertPubkeyFormat sample_wallet = None
   \<and> map toLowerCase (take 2 sample_wallet) = ''01''
   \<and> assertPubkeyFormat (''0x'' @ sample_wallet) = None
   \<and> (\<exists>dto. fst (createChallenge sample_env Map.empty (''0x'' @ sample_wallet)) = Inr dto)
   \<and> verifyCasperSignature sample_crypto (''0x'' @ sample_wallet) ''m'' sample_signature =
       Inl (BadRequestException Unsupported_Casper_key_algorithm)"
proof -
  have tag: "map toLowerCase (take 2 sample_wallet) = ''01''"
    by (simp add: sample_wallet_def toLowerCase_def)
  then have tag': "map toLowerCase (take 2 sample_wallet) \<in> {''01'', ''02''}" by simp
  from prefixed_key_never_verifies [OF assert_sample_wallet tag',
      where raw = "''0x'' @ sample_wallet" and env = sample_env and chs = Map.empty
        and cr = sample_crypto and message = "''m''" and sg = sample_signature
        and body = sample_request and now = 0]
    trim_prefixed_sample
  have "assertPubkeyFormat (''0x'' @ sample_wallet) = None
    \<and> (\<exists>dto. fst (createChallenge sample_env Map.empty (''0x'' @ sample_wallet)) = Inr dto)
    \<and> verifyCasperSignature sample_crypto (''0x'' @ sample_wallet) ''m'' sample_signature =
       Inl (BadRequestException Unsupported_Casper_key_algorithm)"
    by auto
  with assert_sample_wallet tag show ?thesis by simp
qed

end
